theory Spec2Isabelle
  imports Main "HOL-Library.Word"
begin

section \<open>Values of the landing page bootstrapper\<close>

text \<open>
  The script \<^verbatim>\<open>src/assets/app.js\<close> works on whatever \<^verbatim>\<open>response.json()\<close> hands it: JSON
  data. A value is one of the JSON kinds, or \<^verbatim>\<open>undefined\<close> (what a member read yields when
  it misses), or one of the built-in objects that a member read finds on the prototype
  chain of such data: the constructors and prototype objects of the six \<open>kind\<close>s, and the
  built-in methods (a name and a \<^verbatim>\<open>length\<close>). Built-ins only ever come out of a read; the
  data that \<^verbatim>\<open>response.json()\<close> produces has none among its parts.

  Numbers are the integers from \<open>- 2 ^ 53\<close> to \<open>2 ^ 53 - 1\<close>, read from a 54-bit word by
  \<open>sint\<close>: each is a number of the language exactly, and prints as its decimal digits.
  Strings are lists of code units below 256 (HOL's \<open>char\<close>). An object is the list of its
  own members in insertion order, each name once, as the JSON parser leaves them.
\<close>

datatype kind = KObject | KFunction | KArray | KString | KNumber | KBoolean

datatype jsval =
    JUndefined
  | JNull
  | JBool bool
  | JNum "54 word"
  | JStr string
  | JArr "jsval list"
  | JObj "(string \<times> jsval) list"
  | JConstructor kind
  | JMethod string nat
  | JPrototype kind

text \<open>
  What the script throws: its own \<^verbatim>\<open>new Error(message)\<close>, and the engine's \<^verbatim>\<open>TypeError\<close>
  (a member read on \<^verbatim>\<open>null\<close>/\<^verbatim>\<open>undefined\<close>, a call of something that is no function, a
  conversion to text that finds no usable \<^verbatim>\<open>toString\<close>). \<open>SyntaxError\<close> and \<open>NetworkError\<close>
  are what the platform raises while parsing or fetching.
\<close>

datatype error =
    Error string
  | TypeError
  | SyntaxError
  | NetworkError

definition bind_result :: "error + 'a \<Rightarrow> ('a \<Rightarrow> error + 'b) \<Rightarrow> error + 'b" where
  "bind_result m f = (case m of Inl e \<Rightarrow> Inl e | Inr v \<Rightarrow> f v)"

subsection \<open>Primitive operations of the language\<close>

text \<open>\<^verbatim>\<open>v == null\<close>: true of \<^verbatim>\<open>null\<close> and \<^verbatim>\<open>undefined\<close> only.\<close>

fun is_nullish :: "jsval \<Rightarrow> bool" where
  "is_nullish JUndefined = True"
| "is_nullish JNull = True"
| "is_nullish _ = False"

text \<open>Truthiness, as \<^verbatim>\<open>if (v)\<close>, \<^verbatim>\<open>a && b\<close> and \<^verbatim>\<open>a || b\<close> test it.\<close>

fun truthy :: "jsval \<Rightarrow> bool" where
  "truthy JUndefined = False"
| "truthy JNull = False"
| "truthy (JBool b) = b"
| "truthy (JNum n) = (n \<noteq> 0)"
| "truthy (JStr s) = (s \<noteq> [])"
| "truthy (JArr _) = True"
| "truthy (JObj _) = True"
| "truthy (JConstructor _) = True"
| "truthy (JMethod _ _) = True"
| "truthy (JPrototype _) = True"

text \<open>Decimal text of a number, as \<^verbatim>\<open>String(n)\<close> prints an integer.\<close>

fun show_nat :: "nat \<Rightarrow> string" where
  "show_nat n =
     (if n < 10 then [''0123456789'' ! n]
      else show_nat (n div 10) @ [''0123456789'' ! (n mod 10)])"

declare show_nat.simps [simp del]

definition show_int :: "int \<Rightarrow> string" where
  "show_int i = (if i < 0 then CHR ''-'' # show_nat (nat (- i)) else show_nat (nat i))"

text \<open>
  White space as \<^verbatim>\<open>String.prototype.trim\<close> sees it, among the code units below 256:
  tab, line feed, vertical tab, form feed, carriage return, space, no-break space.
\<close>

definition is_space :: "char \<Rightarrow> bool" where
  "is_space c \<longleftrightarrow>
     c = CHR 0x09 \<or> c = CHR 0x0A \<or> c = CHR 0x0B \<or> c = CHR 0x0C \<or> c = CHR 0x0D
     \<or> c = CHR 0x20 \<or> c = CHR 0xA0"

definition trim :: "string \<Rightarrow> string" where
  "trim s = rev (dropWhile is_space (rev (dropWhile is_space s)))"

text \<open>\<^verbatim>\<open>parts.join(',')\<close> on texts.\<close>

fun join_comma :: "string list \<Rightarrow> string" where
  "join_comma [] = []"
| "join_comma [s] = s"
| "join_comma (s # t # ss) = s @ CHR '','' # join_comma (t # ss)"

text \<open>Running a list of fallible steps in order, stopping at the first throw.\<close>

fun sequence_result :: "(error + 'a) list \<Rightarrow> error + 'a list" where
  "sequence_result [] = Inr []"
| "sequence_result (m # ms) =
     (case m of Inl e \<Rightarrow> Inl e
      | Inr v \<Rightarrow> (case sequence_result ms of Inl e \<Rightarrow> Inl e | Inr vs \<Rightarrow> Inr (v # vs)))"

definition kind_name :: "kind \<Rightarrow> string" where
  "kind_name k =
     (case k of KObject \<Rightarrow> ''Object'' | KFunction \<Rightarrow> ''Function'' | KArray \<Rightarrow> ''Array''
      | KString \<Rightarrow> ''String'' | KNumber \<Rightarrow> ''Number'' | KBoolean \<Rightarrow> ''Boolean'')"

text \<open>
  Conversion to text: \<^verbatim>\<open>String(v)\<close>, a template literal's \<^verbatim>\<open>${v}\<close>, and the conversion the
  DOM applies to a value assigned to \<^verbatim>\<open>textContent\<close> or \<^verbatim>\<open>document.title\<close>. An array prints
  its elements joined by commas, \<^verbatim>\<open>null\<close> and \<^verbatim>\<open>undefined\<close> elements as nothing. A parsed
  object prints as \<^verbatim>\<open>[object Object]\<close> through the inherited \<^verbatim>\<open>toString\<close>; when it has a
  member of its own named \<^verbatim>\<open>toString\<close>, that member (JSON data, never a function) hides the
  inherited one, \<^verbatim>\<open>valueOf\<close> yields no primitive either, and the conversion throws.
  A built-in function prints as V8 prints it; the prototype objects print as the empty
  array, the empty string, the number 0 and the boolean \<^verbatim>\<open>false\<close> that they are.
\<close>

fun to_string :: "jsval \<Rightarrow> error + string" where
  "to_string JUndefined = Inr ''undefined''"
| "to_string JNull = Inr ''null''"
| "to_string (JBool b) = Inr (if b then ''true'' else ''false'')"
| "to_string (JNum n) = Inr (show_int (sint n))"
| "to_string (JStr s) = Inr s"
| "to_string (JArr xs) =
     (case sequence_result (map (\<lambda>x. if is_nullish x then Inr [] else to_string x) xs) of
        Inl e \<Rightarrow> Inl e
      | Inr parts \<Rightarrow> Inr (join_comma parts))"
| "to_string (JObj ms) =
     (if ''toString'' \<in> fst ` set ms then Inl TypeError else Inr ''[object Object]'')"
| "to_string (JConstructor k) = Inr (''function '' @ kind_name k @ ''() { [native code] }'')"
| "to_string (JMethod name arity) = Inr (''function '' @ name @ ''() { [native code] }'')"
| "to_string (JPrototype k) =
     Inr (case k of KObject \<Rightarrow> ''[object Object]''
          | KFunction \<Rightarrow> ''function () { [native code] }''
          | KArray \<Rightarrow> [] | KString \<Rightarrow> [] | KNumber \<Rightarrow> ''0'' | KBoolean \<Rightarrow> ''false'')"

subsection \<open>Member reads\<close>

text \<open>
  What a name can stand for on an object: a value, the accessor \<^verbatim>\<open>__proto__\<close> (its getter
  returns the prototype of the value being read), or one of the two restricted accessors
  of \<^verbatim>\<open>Function.prototype\<close>, \<^verbatim>\<open>caller\<close> and \<^verbatim>\<open>arguments\<close>, whose getter always throws.
\<close>

datatype member = Value jsval | ProtoGetter | Thrower

definition methods :: "(string \<times> nat) list \<Rightarrow> (string \<times> member) list" where
  "methods ns = map (\<lambda>(name, arity). (name, Value (JMethod name arity))) ns"

text \<open>
  The own members of the six prototype objects, as ECMAScript 2024 defines them (with
  its annex of legacy string methods): each method with its \<^verbatim>\<open>length\<close>.
\<close>

fun proto_table :: "kind \<Rightarrow> (string \<times> member) list" where
  "proto_table KObject =
     (''constructor'', Value (JConstructor KObject)) # (''__proto__'', ProtoGetter) #
     methods [(''__defineGetter__'', 2), (''__defineSetter__'', 2), (''hasOwnProperty'', 1),
       (''__lookupGetter__'', 1), (''__lookupSetter__'', 1), (''isPrototypeOf'', 1),
       (''propertyIsEnumerable'', 1), (''toString'', 0), (''valueOf'', 0),
       (''toLocaleString'', 0)]"
| "proto_table KFunction =
     (''constructor'', Value (JConstructor KFunction)) # (''name'', Value (JStr [])) #
     (''length'', Value (JNum 0)) # (''caller'', Thrower) # (''arguments'', Thrower) #
     methods [(''apply'', 2), (''bind'', 1), (''call'', 1), (''toString'', 0)]"
| "proto_table KArray =
     (''constructor'', Value (JConstructor KArray)) # (''length'', Value (JNum 0)) #
     methods [(''at'', 1), (''concat'', 1), (''copyWithin'', 2), (''entries'', 0), (''every'', 1),
       (''fill'', 1), (''filter'', 1), (''find'', 1), (''findIndex'', 1), (''findLast'', 1),
       (''findLastIndex'', 1), (''flat'', 0), (''flatMap'', 1), (''forEach'', 1),
       (''includes'', 1), (''indexOf'', 1), (''join'', 1), (''keys'', 0), (''lastIndexOf'', 1),
       (''map'', 1), (''pop'', 0), (''push'', 1), (''reduce'', 1), (''reduceRight'', 1),
       (''reverse'', 0), (''shift'', 0), (''slice'', 2), (''some'', 1), (''sort'', 1),
       (''splice'', 2), (''toLocaleString'', 0), (''toReversed'', 0), (''toSorted'', 1),
       (''toSpliced'', 2), (''toString'', 0), (''unshift'', 1), (''values'', 0), (''with'', 2)]"
| "proto_table KString =
     (''constructor'', Value (JConstructor KString)) # (''length'', Value (JNum 0)) #
     (''trimLeft'', Value (JMethod ''trimStart'' 0)) #
     (''trimRight'', Value (JMethod ''trimEnd'' 0)) #
     methods [(''anchor'', 1), (''at'', 1), (''big'', 0), (''blink'', 0), (''bold'', 0),
       (''charAt'', 1), (''charCodeAt'', 1), (''codePointAt'', 1), (''concat'', 1),
       (''endsWith'', 1), (''fixed'', 0), (''fontcolor'', 1), (''fontsize'', 1),
       (''includes'', 1), (''indexOf'', 1), (''isWellFormed'', 0), (''italics'', 0),
       (''lastIndexOf'', 1), (''link'', 1), (''localeCompare'', 1), (''match'', 1),
       (''matchAll'', 1), (''normalize'', 0), (''padEnd'', 1), (''padStart'', 1),
       (''repeat'', 1), (''replace'', 2), (''replaceAll'', 2), (''search'', 1), (''slice'', 2),
       (''small'', 0), (''split'', 2), (''startsWith'', 1), (''strike'', 0), (''sub'', 0),
       (''substr'', 2), (''substring'', 2), (''sup'', 0), (''toLocaleLowerCase'', 0),
       (''toLocaleUpperCase'', 0), (''toLowerCase'', 0), (''toString'', 0),
       (''toUpperCase'', 0), (''toWellFormed'', 0), (''trim'', 0), (''trimEnd'', 0),
       (''trimStart'', 0), (''valueOf'', 0)]"
| "proto_table KNumber =
     (''constructor'', Value (JConstructor KNumber)) #
     methods [(''toExponential'', 1), (''toFixed'', 1), (''toLocaleString'', 0),
       (''toPrecision'', 1), (''toString'', 1), (''valueOf'', 0)]"
| "proto_table KBoolean =
     (''constructor'', Value (JConstructor KBoolean)) #
     methods [(''toString'', 0), (''valueOf'', 0)]"

text \<open>
  The static members of the six constructors. The constants of \<^verbatim>\<open>Number\<close> that are no
  integers of this model (\<^verbatim>\<open>EPSILON\<close>, \<^verbatim>\<open>MAX_VALUE\<close>, \<^verbatim>\<open>MIN_VALUE\<close>, \<^verbatim>\<open>NaN\<close> and the two
  infinities) are left out.
\<close>

fun static_table :: "kind \<Rightarrow> (string \<times> member) list" where
  "static_table KObject =
     methods [(''assign'', 2), (''create'', 2), (''defineProperties'', 2),
       (''defineProperty'', 3), (''entries'', 1), (''freeze'', 1), (''fromEntries'', 1),
       (''getOwnPropertyDescriptor'', 2), (''getOwnPropertyDescriptors'', 1),
       (''getOwnPropertyNames'', 1), (''getOwnPropertySymbols'', 1), (''getPrototypeOf'', 1),
       (''groupBy'', 2), (''hasOwn'', 2), (''is'', 2), (''isExtensible'', 1), (''isFrozen'', 1),
       (''isSealed'', 1), (''keys'', 1), (''preventExtensions'', 1), (''seal'', 1),
       (''setPrototypeOf'', 2), (''values'', 1)]"
| "static_table KFunction = []"
| "static_table KArray = methods [(''from'', 1), (''isArray'', 1), (''of'', 0)]"
| "static_table KString =
     methods [(''fromCharCode'', 1), (''fromCodePoint'', 1), (''raw'', 1)]"
| "static_table KNumber =
     (''MAX_SAFE_INTEGER'', Value (JNum 9007199254740991)) #
     (''MIN_SAFE_INTEGER'', Value (JNum (- 9007199254740991))) #
     methods [(''isFinite'', 1), (''isInteger'', 1), (''isNaN'', 1), (''isSafeInteger'', 1),
       (''parseFloat'', 1), (''parseInt'', 2)]"
| "static_table KBoolean = []"

text \<open>
  An array index or string index written as a member name: \<^verbatim>\<open>"0"\<close>, or digits that do not
  start with \<^verbatim>\<open>0\<close>.
\<close>

definition is_digit :: "char \<Rightarrow> bool" where
  "is_digit c \<longleftrightarrow> c \<in> set ''0123456789''"

definition digit_val :: "char \<Rightarrow> nat" where
  "digit_val c = of_char c - 48"

definition parse_index :: "string \<Rightarrow> nat option" where
  "parse_index s =
     (if s = [] \<or> \<not> list_all is_digit s then None
      else if s \<noteq> ''0'' \<and> hd s = CHR ''0'' then None
      else Some (foldl (\<lambda>acc c. 10 * acc + digit_val c) 0 s))"

text \<open>
  The members a value has of its own: the members of an object, \<^verbatim>\<open>length\<close> and the indices
  of an array or a string, \<^verbatim>\<open>name\<close> and \<^verbatim>\<open>length\<close> of a function (and \<^verbatim>\<open>prototype\<close> and the
  static members of a constructor), the table of a prototype object.
\<close>

fun own_member :: "jsval \<Rightarrow> string \<Rightarrow> member option" where
  "own_member (JObj ms) key = map_option Value (map_of ms key)"
| "own_member (JArr xs) key =
     (if key = ''length'' then Some (Value (JNum (of_nat (length xs))))
      else (case parse_index key of
              None \<Rightarrow> None
            | Some i \<Rightarrow> if i < length xs then Some (Value (xs ! i)) else None))"
| "own_member (JStr s) key =
     (if key = ''length'' then Some (Value (JNum (of_nat (length s))))
      else (case parse_index key of
              None \<Rightarrow> None
            | Some i \<Rightarrow> if i < length s then Some (Value (JStr [s ! i])) else None))"
| "own_member (JConstructor k) key =
     map_of ((''name'', Value (JStr (kind_name k))) # (''length'', Value (JNum 1)) #
             (''prototype'', Value (JPrototype k)) # static_table k) key"
| "own_member (JMethod name arity) key =
     map_of [(''name'', Value (JStr name)), (''length'', Value (JNum (of_nat arity)))] key"
| "own_member (JPrototype k) key = map_of (proto_table k) key"
| "own_member _ key = None"

text \<open>The prototype chain of a value: the prototype objects a read visits, in order.\<close>

fun chain :: "jsval \<Rightarrow> kind list" where
  "chain (JObj _) = [KObject]"
| "chain (JArr _) = [KArray, KObject]"
| "chain (JStr _) = [KString, KObject]"
| "chain (JNum _) = [KNumber, KObject]"
| "chain (JBool _) = [KBoolean, KObject]"
| "chain (JConstructor _) = [KFunction, KObject]"
| "chain (JMethod _ _) = [KFunction, KObject]"
| "chain (JPrototype KObject) = []"
| "chain (JPrototype _) = [KObject]"
| "chain _ = []"

fun find_in_chain :: "kind list \<Rightarrow> string \<Rightarrow> member option" where
  "find_in_chain [] key = None"
| "find_in_chain (k # ks) key =
     (case map_of (proto_table k) key of None \<Rightarrow> find_in_chain ks key | Some m \<Rightarrow> Some m)"

text \<open>What reading a member yields, on the value \<open>v\<close> being read.\<close>

fun deliver :: "jsval \<Rightarrow> member \<Rightarrow> error + jsval" where
  "deliver v (Value x) = Inr x"
| "deliver v ProtoGetter = Inr (case chain v of [] \<Rightarrow> JNull | k # _ \<Rightarrow> JPrototype k)"
| "deliver v Thrower = Inl TypeError"

text \<open>
  The member read \<^verbatim>\<open>v[key]\<close>. On \<^verbatim>\<open>null\<close> and \<^verbatim>\<open>undefined\<close> it throws. Otherwise the name is
  looked up among the value's own members, then along its prototype chain; a name found
  nowhere yields \<^verbatim>\<open>undefined\<close>.
\<close>

definition get_prop :: "jsval \<Rightarrow> string \<Rightarrow> error + jsval" where
  "get_prop v key =
     (if is_nullish v then Inl TypeError
      else (case own_member v key of
              Some m \<Rightarrow> deliver v m
            | None \<Rightarrow>
                (case find_in_chain (chain v) key of
                   None \<Rightarrow> Inr JUndefined
                 | Some m \<Rightarrow> deliver v m)))"

section \<open>Dot-path lookup\<close>

text \<open>\<^verbatim>\<open>dotPath.split('.')\<close>: the pieces between the dots; never an empty list.\<close>

fun split_dot :: "string \<Rightarrow> string list" where
  "split_dot [] = [[]]"
| "split_dot (c # cs) =
     (if c = CHR ''.'' then [] # split_dot cs
      else (case split_dot cs of [] \<Rightarrow> [[c]] | w # ws \<Rightarrow> (c # w) # ws))"

text \<open>
  \<^verbatim>\<open>keys.reduce((acc, key) => (acc == null ? acc : acc[key]), object)\<close>: the callback runs
  once per key, left to right, and a throw inside it ends the reduction.
\<close>

fun reduce_path :: "string list \<Rightarrow> jsval \<Rightarrow> error + jsval" where
  "reduce_path [] acc = Inr acc"
| "reduce_path (key # keys) acc =
     (case (if is_nullish acc then Inr acc else get_prop acc key) of
        Inl e \<Rightarrow> Inl e
      | Inr v \<Rightarrow> reduce_path keys v)"

definition getPath :: "jsval \<Rightarrow> string \<Rightarrow> error + jsval" where
  "getPath object dotPath = reduce_path (split_dot dotPath) object"

section \<open>Schema validation\<close>

definition requiredPaths :: "string list" where
  "requiredPaths =
     [''site.title'', ''site.tagline'', ''sections.projects'', ''labels.visit'',
      ''footer.copyright'', ''projects'']"

text \<open>The messages of the three errors \<^verbatim>\<open>validateI18n\<close> throws itself.\<close>

definition MissingKey :: "string \<Rightarrow> error" where
  "MissingKey path = Error (''Missing i18n key: '' @ path)"

definition InvalidShape :: error where
  "InvalidShape = Error ''i18n.projects must be an array''"

definition MissingProjectField :: "nat \<Rightarrow> string \<Rightarrow> error" where
  "MissingProjectField index key =
     Error (''Project at index '' @ show_nat index @ '' is missing key: '' @ key)"

text \<open>The first loop: \<^verbatim>\<open>for (const path of requiredPaths)\<close>.\<close>

fun check_paths :: "jsval \<Rightarrow> string list \<Rightarrow> error + unit" where
  "check_paths i18n [] = Inr ()"
| "check_paths i18n (path # paths) =
     (case getPath i18n path of
        Inl e \<Rightarrow> Inl e
      | Inr v \<Rightarrow> if is_nullish v then Inl (MissingKey path) else check_paths i18n paths)"

text \<open>The inner loop: \<^verbatim>\<open>for (const key of ['codename', 'description'])\<close>.\<close>

fun check_project_keys :: "nat \<Rightarrow> jsval \<Rightarrow> string list \<Rightarrow> error + unit" where
  "check_project_keys index project [] = Inr ()"
| "check_project_keys index project (key # keys) =
     (case get_prop project key of
        Inl e \<Rightarrow> Inl e
      | Inr v \<Rightarrow>
          if is_nullish v then Inl (MissingProjectField index key)
          else (case to_string v of
                  Inl e \<Rightarrow> Inl e
                | Inr s \<Rightarrow>
                    if trim s = [] then Inl (MissingProjectField index key)
                    else check_project_keys index project keys))"

text \<open>The outer loop: \<^verbatim>\<open>for (const [index, project] of i18n.projects.entries())\<close>.\<close>

fun check_projects :: "nat \<Rightarrow> jsval list \<Rightarrow> error + unit" where
  "check_projects index [] = Inr ()"
| "check_projects index (project # projects) =
     (case check_project_keys index project [''codename'', ''description''] of
        Inl e \<Rightarrow> Inl e
      | Inr _ \<Rightarrow> check_projects (Suc index) projects)"

text \<open>
  \<^verbatim>\<open>Array.isArray(v)\<close> and, when it holds, the elements \<^verbatim>\<open>v.entries()\<close> walks over: those of
  an array; \<^verbatim>\<open>Array.prototype\<close> is an array too, an empty one.
\<close>

fun array_entries :: "jsval \<Rightarrow> jsval list option" where
  "array_entries (JArr xs) = Some xs"
| "array_entries (JPrototype KArray) = Some []"
| "array_entries _ = None"

definition validateI18n :: "jsval \<Rightarrow> error + unit" where
  "validateI18n i18n =
     (case check_paths i18n requiredPaths of
        Inl e \<Rightarrow> Inl e
      | Inr _ \<Rightarrow>
          (case get_prop i18n ''projects'' of
             Inl e \<Rightarrow> Inl e
           | Inr v \<Rightarrow>
               (case array_entries v of
                  None \<Rightarrow> Inl InvalidShape
                | Some projects \<Rightarrow> check_projects 0 projects)))"

section \<open>Language resolution\<close>

text \<open>
  \<^verbatim>\<open>new URLSearchParams(window.location.search)\<close> is the platform's parser; its result is an
  input here: the decoded name/value pairs in order, or the error it raised.
  \<^verbatim>\<open>params.get(name)\<close> is the value of the first pair of that name, \<^verbatim>\<open>null\<close> when none.
\<close>

definition params_get :: "(string \<times> string) list \<Rightarrow> string \<Rightarrow> string option" where
  "params_get params name = map_of params name"

text \<open>\<^verbatim>\<open>(params.get('lang') || '').trim()\<close>\<close>

definition lang_candidate :: "(string \<times> string) list \<Rightarrow> string" where
  "lang_candidate params =
     trim (case params_get params ''lang'' of None \<Rightarrow> [] | Some v \<Rightarrow> if v \<noteq> [] then v else [])"

text \<open>
  \<^verbatim>\<open>window.__APP_CONFIG__ && window.__APP_CONFIG__.name\<close>: the configuration value is
  \<open>JUndefined\<close> when the page sets none.
\<close>

definition configured :: "jsval \<Rightarrow> string \<Rightarrow> error + jsval" where
  "configured config name = (if truthy config then get_prop config name else Inr config)"

text \<open>\<^verbatim>\<open>a || b\<close>\<close>

definition or_else :: "jsval \<Rightarrow> jsval \<Rightarrow> jsval" where
  "or_else a b = (if truthy a then a else b)"

definition default_language :: "jsval \<Rightarrow> error + jsval" where
  "default_language config =
     (case configured config ''defaultLanguage'' of
        Inl e \<Rightarrow> Inl e
      | Inr d \<Rightarrow> Inr (or_else d (JStr ''en'')))"

definition getLanguage :: "error + (string \<times> string) list \<Rightarrow> jsval \<Rightarrow> error + jsval" where
  "getLanguage search config =
     (case search of
        Inl _ \<Rightarrow> default_language config
      | Inr params \<Rightarrow>
          (let candidate = lang_candidate params
           in if candidate \<noteq> [] then Inr (JStr candidate) else default_language config))"

section \<open>Resource loading\<close>

text \<open>
  \<^verbatim>\<open>encodeURIComponent\<close>: letters, digits and \<^verbatim>\<open>- _ . ! ~ * ' ( )\<close> stay; any other code unit
  is written as the percent-escaped bytes of its UTF-8 form (one byte below 128, two
  bytes from 128 to 255).
\<close>

definition unreserved :: "char \<Rightarrow> bool" where
  "unreserved c \<longleftrightarrow>
     c \<in> set ''ABCDEFGHIJKLMNOPQRSTUVWXYZabcdefghijklmnopqrstuvwxyz0123456789-_.!~*()''
     \<or> c = CHR 0x27"

definition percent_byte :: "nat \<Rightarrow> string" where
  "percent_byte b =
     [CHR ''%'', ''0123456789ABCDEF'' ! (b div 16), ''0123456789ABCDEF'' ! (b mod 16)]"

definition encode_unit :: "char \<Rightarrow> string" where
  "encode_unit c =
     (let n = (of_char c :: nat)
      in if unreserved c then [c]
         else if n < 128 then percent_byte n
         else percent_byte (192 + n div 64) @ percent_byte (128 + n mod 64))"

definition encodeURIComponent :: "string \<Rightarrow> string" where
  "encodeURIComponent s = concat (map encode_unit s)"

text \<open>
  What \<^verbatim>\<open>fetch\<close> resolves to: the flag \<^verbatim>\<open>response.ok\<close>, the status code, and what
  \<^verbatim>\<open>response.json()\<close> settles to (the parsed data, or the error of a body that does not
  parse).
\<close>

record response =
  ok :: bool
  status :: nat
  json :: "error + jsval"

definition ResourceUnavailable :: "string \<Rightarrow> nat \<Rightarrow> error" where
  "ResourceUnavailable url code =
     Error (''Failed to load i18n resource: '' @ url @ '' ('' @ show_nat code @ '')'')"

definition MalformedResource :: "string \<Rightarrow> error" where
  "MalformedResource language = Error (''Malformed i18n JSON for language: '' @ language)"

section \<open>The page\<close>

datatype node =
    TextNode string
  | Element string string "(string \<times> string) list" "node list"

text \<open>
  An element is its tag, its class name (empty when never set), its other attributes and
  its children. The mount point \<^verbatim>\<open>#app\<close> is kept by its children and attributes.
\<close>

record mount =
  children :: "node list"
  attributes :: "(string \<times> string) list"

text \<open>
  What the script can change or reach: the document title, the mount point (\<open>None\<close> when
  the page has no element \<^verbatim>\<open>#app\<close>), what \<^verbatim>\<open>console.error\<close> received, and the locations
  requested from the network.
\<close>

record page =
  doc_title :: string
  app_root :: "mount option"
  console :: "error list"
  requests :: "string list"

definition loadI18n ::
  "jsval \<Rightarrow> (string \<Rightarrow> error + response) \<Rightarrow> jsval \<Rightarrow> page \<Rightarrow> (error + jsval) \<times> page" where
  "loadI18n config fetch language w =
     (case configured config ''i18nPath'' of
        Inl e \<Rightarrow> (Inl e, w)
      | Inr p \<Rightarrow>
     (case to_string (or_else p (JStr ''i18n'')) of
        Inl e \<Rightarrow> (Inl e, w)
      | Inr basePath \<Rightarrow>
     (case to_string language of
        Inl e \<Rightarrow> (Inl e, w)
      | Inr lang \<Rightarrow>
          (let url = basePath @ ''/'' @ encodeURIComponent lang @ ''.json'';
               w' = w\<lparr>requests := requests w @ [url]\<rparr>
           in case fetch url of
                Inl e \<Rightarrow> (Inl e, w')
              | Inr r \<Rightarrow>
                  if \<not> ok r then (Inl (ResourceUnavailable url (status r)), w')
                  else (case json r of
                          Inl _ \<Rightarrow> (Inl (MalformedResource lang), w')
                        | Inr v \<Rightarrow> (Inr v, w'))))))"

section \<open>Rendering\<close>

text \<open>
  The loop of \<^verbatim>\<open>el\<close> over \<^verbatim>\<open>Object.entries(options.attrs)\<close>: an attribute is set, with its
  value converted to text, unless the value is \<^verbatim>\<open>null\<close> or \<^verbatim>\<open>undefined\<close>.
\<close>

fun set_attrs :: "(string \<times> jsval) list \<Rightarrow> error + (string \<times> string) list" where
  "set_attrs [] = Inr []"
| "set_attrs ((name, v) # rest) =
     (if is_nullish v then set_attrs rest
      else (case to_string v of
              Inl e \<Rightarrow> Inl e
            | Inr s \<Rightarrow>
                (case set_attrs rest of Inl e \<Rightarrow> Inl e | Inr as \<Rightarrow> Inr ((name, s) # as))))"

text \<open>
  Assigning \<^verbatim>\<open>textContent\<close> leaves one text node holding exactly the assigned text, or no
  child at all when the text is empty.
\<close>

definition text_children :: "string \<Rightarrow> node list" where
  "text_children s = (if s = [] then [] else [TextNode s])"

text \<open>
  \<^verbatim>\<open>el(tag, {className, text, attrs})\<close>; an option the caller leaves out is the empty class
  name, \<open>JUndefined\<close>, the empty attribute list.
\<close>

definition el :: "string \<Rightarrow> string \<Rightarrow> jsval \<Rightarrow> (string \<times> jsval) list \<Rightarrow> error + node" where
  "el tag className text attrs =
     (case (if is_nullish text then Inr []
            else (case to_string text of Inl e \<Rightarrow> Inl e | Inr s \<Rightarrow> Inr (text_children s))) of
        Inl e \<Rightarrow> Inl e
      | Inr kids \<Rightarrow>
          (case set_attrs attrs of
             Inl e \<Rightarrow> Inl e
           | Inr as \<Rightarrow> Inr (Element tag className as kids)))"

text \<open>\<^verbatim>\<open>parent.append(a, b, ...)\<close>\<close>

fun append_children :: "node \<Rightarrow> node list \<Rightarrow> node" where
  "append_children (Element tag cls as kids) new = Element tag cls as (kids @ new)"
| "append_children (TextNode s) new = TextNode s"

text \<open>The body of \<^verbatim>\<open>for (const project of i18n.projects)\<close>: one card.\<close>

definition render_project :: "jsval \<Rightarrow> jsval \<Rightarrow> error + node" where
  "render_project i18n project =
     bind_result (el ''article'' ''project-card'' JUndefined []) (\<lambda>article.
     bind_result (get_prop project ''codename'') (\<lambda>codename.
     bind_result (el ''h3'' ''project-name'' codename []) (\<lambda>name.
     bind_result (get_prop project ''description'') (\<lambda>description.
     bind_result (el ''p'' ''project-desc'' description []) (\<lambda>desc.
     bind_result (get_prop project ''url'') (\<lambda>url.
       if truthy url then
         bind_result (el ''div'' ''project-actions'' JUndefined []) (\<lambda>actions.
         bind_result (getPath i18n ''labels.visit'') (\<lambda>visitLabel.
         bind_result (to_string visitLabel) (\<lambda>visitText.
         bind_result (to_string codename) (\<lambda>codenameText.
         bind_result
           (el ''a'' ''button-link'' visitLabel
              [(''href'', url),
               (''target'', JStr ''_blank''),
               (''rel'', JStr ''noopener noreferrer''),
               (''aria-label'', JStr (visitText @ '': '' @ codenameText))]) (\<lambda>link.
         Inr (append_children (append_children article [name, desc])
                [append_children actions [link]]))))))
       else Inr (append_children article [name, desc])))))))"

fun render_projects :: "jsval \<Rightarrow> jsval list \<Rightarrow> error + node list" where
  "render_projects i18n [] = Inr []"
| "render_projects i18n (project # projects) =
     (case render_project i18n project of
        Inl e \<Rightarrow> Inl e
      | Inr article \<Rightarrow>
          (case render_projects i18n projects of
             Inl e \<Rightarrow> Inl e
           | Inr articles \<Rightarrow> Inr (article # articles)))"

text \<open>
  What \<^verbatim>\<open>for (... of v)\<close> walks over: the elements of an array, the characters of a string
  (\<^verbatim>\<open>Array.prototype\<close> and \<^verbatim>\<open>String.prototype\<close> are an empty array and an empty string);
  anything else is not iterable.
\<close>

fun iterate :: "jsval \<Rightarrow> error + jsval list" where
  "iterate (JArr xs) = Inr xs"
| "iterate (JStr s) = Inr (map (\<lambda>c. JStr [c]) s)"
| "iterate (JPrototype KArray) = Inr []"
| "iterate (JPrototype KString) = Inr []"
| "iterate _ = Inl TypeError"

text \<open>
  \<^verbatim>\<open>s.replace(pattern, replacement)\<close> with a text pattern: the first occurrence only. The
  replacement here is a year's digits, free of \<^verbatim>\<open>$\<close> patterns.
\<close>

fun replace_first :: "string \<Rightarrow> string \<Rightarrow> string \<Rightarrow> string" where
  "replace_first pat rep [] = (if pat = [] then rep else [])"
| "replace_first pat rep (c # cs) =
     (if take (length pat) (c # cs) = pat then rep @ drop (length pat) (c # cs)
      else c # replace_first pat rep cs)"

text \<open>
  \<^verbatim>\<open>v.replace(...)\<close> as a call: only a string has the method (and \<^verbatim>\<open>String.prototype\<close>, the
  empty string); on every other value the member is missing or no function, and the
  call throws.
\<close>

fun call_replace :: "jsval \<Rightarrow> string \<Rightarrow> string \<Rightarrow> error + string" where
  "call_replace (JStr s) pat rep = Inr (replace_first pat rep s)"
| "call_replace (JPrototype KString) pat rep = Inr (replace_first pat rep [])"
| "call_replace _ pat rep = Inl TypeError"

text \<open>
  Lines 104 to 152 of \<^verbatim>\<open>render\<close>: the detached tree, built before the page is touched.
  \<open>year\<close> is the number \<^verbatim>\<open>new Date().getFullYear()\<close>.
\<close>

definition build_tree :: "jsval \<Rightarrow> 54 word \<Rightarrow> error + node" where
  "build_tree i18n year =
     bind_result (el ''div'' ''container'' JUndefined []) (\<lambda>container.
     bind_result (el ''header'' ''site-header'' JUndefined []) (\<lambda>header.
     bind_result (getPath i18n ''site.title'') (\<lambda>titleText.
     bind_result (el ''h1'' ''title'' titleText []) (\<lambda>title.
     bind_result (getPath i18n ''site.tagline'') (\<lambda>taglineText.
     bind_result (el ''p'' ''tagline'' taglineText []) (\<lambda>tagline.
     bind_result (el ''section'' ''projects'' JUndefined []) (\<lambda>projectsSection.
     bind_result (getPath i18n ''sections.projects'') (\<lambda>sectionText.
     bind_result (el ''h2'' ''section-title'' sectionText []) (\<lambda>sectionTitle.
     bind_result (el ''div'' ''projects-grid'' JUndefined []) (\<lambda>grid.
     bind_result (get_prop i18n ''projects'') (\<lambda>projects.
     bind_result (iterate projects) (\<lambda>entries.
     bind_result (render_projects i18n entries) (\<lambda>cards.
     bind_result (el ''footer'' ''site-footer'' JUndefined []) (\<lambda>footer.
     bind_result (getPath i18n ''footer.copyright'') (\<lambda>copyrightTmpl.
     bind_result (call_replace copyrightTmpl ''{year}'' (show_int (sint year))) (\<lambda>copyright.
     bind_result (el ''div'' [] (JStr copyright) []) (\<lambda>copyrightNode.
     Inr (append_children container
            [append_children header [title, tagline],
             append_children projectsSection [sectionTitle, append_children grid cards],
             append_children footer [copyrightNode]]))))))))))))))))))"

text \<open>\<^verbatim>\<open>node.setAttribute(name, value)\<close> on an attribute list.\<close>

fun set_attribute :: "string \<Rightarrow> string \<Rightarrow> (string \<times> string) list \<Rightarrow> (string \<times> string) list" where
  "set_attribute name v [] = [(name, v)]"
| "set_attribute name v ((n, old) # rest) =
     (if n = name then (n, v) # rest else (n, old) # set_attribute name v rest)"

text \<open>
  \<^verbatim>\<open>render\<close>: the title is assigned first, then the tree is built, then the mount point is
  given the tree in one step and marked as no longer busy. A throw leaves the page as the
  statements before it left it.
\<close>

definition render :: "jsval \<Rightarrow> 54 word \<Rightarrow> page \<Rightarrow> (error + unit) \<times> page" where
  "render i18n year w =
     (case bind_result (getPath i18n ''site.title'') to_string of
        Inl e \<Rightarrow> (Inl e, w)
      | Inr t \<Rightarrow>
          (let w1 = w\<lparr>doc_title := t\<rparr>
           in case build_tree i18n year of
                Inl e \<Rightarrow> (Inl e, w1)
              | Inr container \<Rightarrow>
                  (case app_root w1 of
                     None \<Rightarrow> (Inl TypeError, w1)
                   | Some m \<Rightarrow>
                       (Inr (),
                        w1\<lparr>app_root :=
                             Some (m\<lparr>children := [container],
                                      attributes :=
                                        set_attribute ''aria-busy'' ''false'' (attributes m)\<rparr>)\<rparr>))))"

section \<open>The bootstrap sequence\<close>

text \<open>What the browser supplies to one page load.\<close>

record browser =
  location_search :: "error + (string \<times> string) list"
  app_config :: jsval
  network :: "string \<Rightarrow> error + response"
  current_year :: "54 word"

text \<open>The body of the \<^verbatim>\<open>async\<close> arrow function.\<close>

definition pipeline :: "browser \<Rightarrow> page \<Rightarrow> (error + unit) \<times> page" where
  "pipeline b w =
     (case getLanguage (location_search b) (app_config b) of
        Inl e \<Rightarrow> (Inl e, w)
      | Inr language \<Rightarrow>
          (case loadI18n (app_config b) (network b) language w of
             (Inl e, w1) \<Rightarrow> (Inl e, w1)
           | (Inr i18n, w1) \<Rightarrow>
               (case validateI18n i18n of
                  Inl e \<Rightarrow> (Inl e, w1)
                | Inr _ \<Rightarrow> render i18n (current_year b) w1)))"

text \<open>The arrow function called, with its \<^verbatim>\<open>.catch((error) => console.error(error))\<close>.\<close>

definition bootstrap :: "browser \<Rightarrow> page \<Rightarrow> page" where
  "bootstrap b w =
     (case pipeline b w of
        (Inl e, w') \<Rightarrow> w'\<lparr>console := console w' @ [e]\<rparr>
      | (Inr _, w') \<Rightarrow> w')"

section \<open>Reading a rendered tree\<close>

text \<open>The elements of a class in a subtree, in document order.\<close>

fun by_class :: "string \<Rightarrow> node \<Rightarrow> node list" where
  "by_class c (TextNode s) = []"
| "by_class c (Element tag cls as kids) =
     (if cls = c then [Element tag cls as kids] else []) @ concat (map (by_class c) kids)"

text \<open>Joining pieces with dots, the inverse of \<^verbatim>\<open>split('.')\<close>.\<close>

fun join_dot :: "string list \<Rightarrow> string" where
  "join_dot [] = []"
| "join_dot [s] = s"
| "join_dot (s # t # ss) = s @ CHR ''.'' # join_dot (t # ss)"

section \<open>Reading a document\<close>

text \<open>A dot-path resolves to an absent value: \<^verbatim>\<open>getPath(doc, path) == null\<close>.\<close>

definition resolves_absent :: "jsval \<Rightarrow> string \<Rightarrow> bool" where
  "resolves_absent doc path =
     (case getPath doc path of Inl _ \<Rightarrow> False | Inr v \<Rightarrow> is_nullish v)"

text \<open>
  A field of a project entry is usable: it can be read, is neither \<^verbatim>\<open>null\<close> nor
  \<^verbatim>\<open>undefined\<close>, and converts to text that is not blank.
\<close>

definition field_ok :: "jsval \<Rightarrow> string \<Rightarrow> bool" where
  "field_ok entry key =
     (case get_prop entry key of
        Inl _ \<Rightarrow> False
      | Inr v \<Rightarrow>
          \<not> is_nullish v \<and> (case to_string v of Inl _ \<Rightarrow> False | Inr s \<Rightarrow> trim s \<noteq> []))"

text \<open>
  A field of a project entry is absent, empty or blank: the entry has no members to read
  (it is \<^verbatim>\<open>null\<close>), or the field reads as \<^verbatim>\<open>null\<close> or \<^verbatim>\<open>undefined\<close>, or it converts to text
  that trims to nothing.
\<close>

definition field_missing :: "jsval \<Rightarrow> string \<Rightarrow> bool" where
  "field_missing entry key =
     (case get_prop entry key of
        Inl _ \<Rightarrow> True
      | Inr v \<Rightarrow>
          is_nullish v \<or> (case to_string v of Inl _ \<Rightarrow> False | Inr s \<Rightarrow> trim s = []))"

section \<open>Reading a query\<close>

text \<open>
  The page URL carries no usable \<^verbatim>\<open>lang\<close>: the query could not be parsed, or it has no
  \<^verbatim>\<open>lang\<close> parameter, or the value of its first \<^verbatim>\<open>lang\<close> parameter is empty or blank.
\<close>

definition lang_unusable :: "error + (string \<times> string) list \<Rightarrow> bool" where
  "lang_unusable search =
     (case search of
        Inl _ \<Rightarrow> True
      | Inr params \<Rightarrow> (case params_get params ''lang'' of None \<Rightarrow> True | Some v \<Rightarrow> trim v = []))"

section \<open>Reading what a document renders\<close>

text \<open>A value converts to text: \<^verbatim>\<open>String(v)\<close> returns instead of throwing.\<close>

definition converts :: "jsval \<Rightarrow> bool" where
  "converts v = (case to_string v of Inl _ \<Rightarrow> False | Inr _ \<Rightarrow> True)"

section \<open>Sample inputs\<close>

text \<open>
  A small localization document with two projects, the first with a link, given by its
  title, tagline, section heading, link label, copyright and entries; the same document
  with a number as its copyright; an object that does not convert to text; and a page
  shell whose mount point is busy.
\<close>

abbreviation orbit_entry :: jsval where
  "orbit_entry \<equiv>
     JObj [(''codename'', JStr ''Orbit''), (''description'', JStr ''A tool''),
           (''url'', JStr ''https://x.test'')]"

abbreviation kite_entry :: jsval where
  "kite_entry \<equiv> JObj [(''codename'', JStr ''Kite''), (''description'', JStr ''A toy'')]"

abbreviation sample_with ::
  "jsval \<Rightarrow> jsval \<Rightarrow> jsval \<Rightarrow> jsval \<Rightarrow> jsval \<Rightarrow> jsval list \<Rightarrow> jsval" where
  "sample_with t g h l c ps \<equiv>
     JObj [(''site'', JObj [(''title'', t), (''tagline'', g)]),
           (''sections'', JObj [(''projects'', h)]),
           (''labels'', JObj [(''visit'', l)]),
           (''footer'', JObj [(''copyright'', c)]),
           (''projects'', JArr ps)]"

abbreviation sample_doc :: jsval where
  "sample_doc \<equiv>
     sample_with (JStr ''Capri Blue'') (JStr ''Small tools'') (JStr ''Projects'')
       (JStr ''Visit'') (JStr ''(c) {year} Acme'') [orbit_entry, kite_entry]"

abbreviation numeric_doc :: jsval where
  "numeric_doc \<equiv>
     sample_with (JStr ''Capri Blue'') (JStr ''Small tools'') (JStr ''Projects'')
       (JStr ''Visit'') (JNum 2025) [orbit_entry, kite_entry]"

abbreviation unprintable :: jsval where
  "unprintable \<equiv> JObj [(''toString'', JNum 1)]"

abbreviation sample_mount :: mount where
  "sample_mount \<equiv>
     \<lparr>children = [TextNode ''Loading''],
      attributes = [(''id'', ''app''), (''aria-busy'', ''true'')]\<rparr>"

abbreviation sample_page :: page where
  "sample_page \<equiv>
     \<lparr>doc_title = ''Loading'', app_root = Some sample_mount, console = [], requests = []\<rparr>"

section \<open>Properties of the member read\<close>

lemma methods_only_values: "(key, m) \<in> set (methods ns) \<Longrightarrow> \<exists>x. m = Value x"
  by (auto simp: methods_def)

lemma proto_table_thrower:
  "(key, Thrower) \<in> set (proto_table k) \<Longrightarrow> key = ''caller'' \<or> key = ''arguments''"
  by (cases k) (auto dest: methods_only_values)

lemma static_table_thrower: "(key, Thrower) \<notin> set (static_table k)"
  by (cases k) (auto dest: methods_only_values)

lemma own_member_thrower:
  "own_member v key = Some Thrower \<Longrightarrow> key = ''caller'' \<or> key = ''arguments''"
proof (cases v)
  case (JConstructor k)
  assume "own_member v key = Some Thrower"
  with JConstructor
  have "map_of ((''name'', Value (JStr (kind_name k))) # (''length'', Value (JNum 1)) #
                (''prototype'', Value (JPrototype k)) # static_table k) key = Some Thrower"
    by (simp del: map_of.simps static_table.simps)
  then have "(key, Thrower) \<in> set ((''name'', Value (JStr (kind_name k))) #
                (''length'', Value (JNum 1)) #
                (''prototype'', Value (JPrototype k)) # static_table k)"
    by (rule map_of_SomeD)
  then show ?thesis by (simp add: static_table_thrower del: static_table.simps)
next
  case (JPrototype k)
  assume "own_member v key = Some Thrower"
  with JPrototype have "map_of (proto_table k) key = Some Thrower"
    by simp
  then have "(key, Thrower) \<in> set (proto_table k)"
    by (rule map_of_SomeD)
  then show ?thesis by (rule proto_table_thrower)
qed (auto split: if_splits option.splits)

lemma find_in_chain_thrower:
  "find_in_chain ks key = Some Thrower \<Longrightarrow> key = ''caller'' \<or> key = ''arguments''"
proof (induction ks)
  case Nil
  then show ?case by simp
next
  case (Cons k ks)
  show ?case
  proof (cases "map_of (proto_table k) key")
    case None
    with Cons show ?thesis by simp
  next
    case (Some m)
    with Cons.prems have "(key, Thrower) \<in> set (proto_table k)"
      by (auto dest!: map_of_SomeD simp del: proto_table.simps)
    then show ?thesis by (rule proto_table_thrower)
  qed
qed

lemma deliver_returns: "m \<noteq> Thrower \<Longrightarrow> \<exists>w. deliver v m = Inr w"
  by (cases m) simp_all

lemma get_prop_safe:
  assumes "\<not> is_nullish v" and "key \<noteq> ''caller''" and "key \<noteq> ''arguments''"
  shows "\<exists>w. get_prop v key = Inr w"
proof (cases "own_member v key")
  case (Some m)
  with assms(2,3) have "m \<noteq> Thrower" using own_member_thrower by blast
  with Some assms(1) show ?thesis
    using deliver_returns [of m v] by (simp add: get_prop_def)
next
  case None
  show ?thesis
  proof (cases "find_in_chain (chain v) key")
    case n: None
    with None assms(1) show ?thesis by (simp add: get_prop_def)
  next
    case (Some m)
    with assms(2,3) have "m \<noteq> Thrower" using find_in_chain_thrower by blast
    with None Some assms(1) show ?thesis
      using deliver_returns [of m v] by (simp add: get_prop_def)
  qed
qed

lemma get_prop_nullish: "is_nullish v \<Longrightarrow> get_prop v key = Inl TypeError"
  by (simp add: get_prop_def)

lemma get_prop_own_member:
  "map_of ms key = Some v \<Longrightarrow> get_prop (JObj ms) key = Inr v"
  by (simp add: get_prop_def)

section \<open>Properties of the dot-path lookup\<close>

lemma reduce_path_nullish: "is_nullish acc \<Longrightarrow> reduce_path keys acc = Inr acc"
  by (induction keys) simp_all

lemma reduce_path_safe:
  "\<forall>k \<in> set keys. k \<noteq> ''caller'' \<and> k \<noteq> ''arguments''
    \<Longrightarrow> \<exists>v. reduce_path keys acc = Inr v"
proof (induction keys arbitrary: acc)
  case Nil
  show ?case by simp
next
  case (Cons key keys)
  show ?case
  proof (cases "is_nullish acc")
    case True
    then show ?thesis by (simp add: reduce_path_nullish)
  next
    case False
    from Cons.prems have "key \<noteq> ''caller''" "key \<noteq> ''arguments''" by simp_all
    with False obtain w where "get_prop acc key = Inr w" using get_prop_safe by blast
    with False Cons.IH [of w] Cons.prems show ?thesis by simp
  qed
qed

lemma reduce_path_append:
  "reduce_path ks1 acc = Inr a \<Longrightarrow> reduce_path (ks1 @ ks2) acc = reduce_path ks2 a"
  by (induction ks1 arbitrary: acc) (auto split: sum.splits if_splits)

lemma split_dot_nonempty: "split_dot s \<noteq> []"
  by (induction s) (auto split: list.splits)

lemma split_dot_append: "split_dot (p @ CHR ''.'' # q) = split_dot p @ split_dot q"
proof (induction p)
  case Nil
  show ?case by simp
next
  case (Cons c cs)
  obtain w ws where sp: "split_dot cs = w # ws"
    using split_dot_nonempty [of cs] by (cases "split_dot cs") auto
  with Cons show ?case by simp
qed

lemma split_dot_plain: "CHR ''.'' \<notin> set key \<Longrightarrow> split_dot key = [key]"
  by (induction key) auto

lemma split_join_dot:
  "keys \<noteq> [] \<Longrightarrow> \<forall>k \<in> set keys. CHR ''.'' \<notin> set k \<Longrightarrow> split_dot (join_dot keys) = keys"
proof (induction keys rule: join_dot.induct)
  case 1
  then show ?case by simp
next
  case (2 s)
  then show ?case by (simp add: split_dot_plain)
next
  case (3 s t ss)
  then show ?case by (simp add: split_dot_append split_dot_plain)
qed

lemma reduce_path_single: "\<not> is_nullish a \<Longrightarrow> reduce_path [key] a = get_prop a key"
  by (cases "get_prop a key") simp_all

lemma getPath_extend:
  "CHR ''.'' \<notin> set key \<Longrightarrow> getPath object p = Inr a
    \<Longrightarrow> getPath object (p @ CHR ''.'' # key) = reduce_path [key] a"
  by (simp add: getPath_def split_dot_append split_dot_plain reduce_path_append
      del: reduce_path.simps)

text \<open>
  C9, as the code has it. For every value and every dot-path none of whose pieces is
  \<^verbatim>\<open>caller\<close> or \<^verbatim>\<open>arguments\<close>, \<open>getPath\<close> returns a value and does not throw, also when a
  piece is read from a primitive. The path is read piece by piece: a path of one piece
  reads that member of the value, a path extended by a dot and one more piece reads that
  member of what the shorter path gives (for an object, the member of that name). As soon
  as the value or an intermediate result is \<^verbatim>\<open>null\<close> or \<^verbatim>\<open>undefined\<close>, that is the result,
  whatever follows.
\<close>

theorem getPath_lenient:
  "(keys \<noteq> []
      \<and> (\<forall>k \<in> set keys. CHR ''.'' \<notin> set k \<and> k \<noteq> ''caller'' \<and> k \<noteq> ''arguments'')
      \<longrightarrow> (\<exists>v. getPath object (join_dot keys) = Inr v))
   \<and> (CHR ''.'' \<notin> set key \<and> \<not> is_nullish object
        \<longrightarrow> getPath object key = get_prop object key)
   \<and> (CHR ''.'' \<notin> set key \<and> getPath object p = Inr a \<and> \<not> is_nullish a
        \<longrightarrow> getPath object (p @ ''.'' @ key) = get_prop a key)
   \<and> (CHR ''.'' \<notin> set key \<and> getPath object p = Inr (JObj ms) \<and> map_of ms key = Some x
        \<longrightarrow> getPath object (p @ ''.'' @ key) = Inr x)
   \<and> (getPath object p = Inr b \<and> is_nullish b
        \<longrightarrow> getPath object (p @ ''.'' @ rest) = Inr b)
   \<and> (is_nullish object \<longrightarrow> getPath object p = Inr object)"
proof (intro conjI impI)
  assume h: "keys \<noteq> []
      \<and> (\<forall>k \<in> set keys. CHR ''.'' \<notin> set k \<and> k \<noteq> ''caller'' \<and> k \<noteq> ''arguments'')"
  then have "split_dot (join_dot keys) = keys" by (simp add: split_join_dot)
  moreover have "\<exists>v. reduce_path keys object = Inr v"
    using h by (intro reduce_path_safe) simp
  ultimately show "\<exists>v. getPath object (join_dot keys) = Inr v"
    by (simp add: getPath_def)
next
  assume "CHR ''.'' \<notin> set key \<and> \<not> is_nullish object"
  then show "getPath object key = get_prop object key"
    by (simp add: getPath_def split_dot_plain reduce_path_single del: reduce_path.simps)
next
  assume h: "CHR ''.'' \<notin> set key \<and> getPath object p = Inr a \<and> \<not> is_nullish a"
  then have "getPath object (p @ ''.'' @ key) = reduce_path [key] a"
    by (simp add: getPath_extend del: reduce_path.simps)
  also have "\<dots> = get_prop a key"
    using h by (simp add: reduce_path_single del: reduce_path.simps)
  finally show "getPath object (p @ ''.'' @ key) = get_prop a key" .
next
  assume h: "CHR ''.'' \<notin> set key \<and> getPath object p = Inr (JObj ms) \<and> map_of ms key = Some x"
  then have "getPath object (p @ ''.'' @ key) = reduce_path [key] (JObj ms)"
    by (simp add: getPath_extend del: reduce_path.simps)
  also have "\<dots> = get_prop (JObj ms) key"
    by (simp add: reduce_path_single del: reduce_path.simps)
  also have "\<dots> = Inr x"
    using h by (simp add: get_prop_own_member)
  finally show "getPath object (p @ ''.'' @ key) = Inr x" .
next
  assume h: "getPath object p = Inr b \<and> is_nullish b"
  then have "getPath object (p @ ''.'' @ rest) = reduce_path (split_dot rest) b"
    by (simp add: getPath_def split_dot_append reduce_path_append)
  with h show "getPath object (p @ ''.'' @ rest) = Inr b"
    by (simp add: reduce_path_nullish)
next
  assume "is_nullish object"
  then show "getPath object p = Inr object"
    by (simp add: getPath_def reduce_path_nullish)
qed

text \<open>
  In \<^verbatim>\<open>{"site": {"title": null}, "name": "x"}\<close>: the path \<^verbatim>\<open>site.title\<close> gives the \<^verbatim>\<open>null\<close>, and
  so does \<^verbatim>\<open>site.title.length.x\<close>; the path \<^verbatim>\<open>name.title\<close> reads \<^verbatim>\<open>title\<close> from a string and
  gives \<^verbatim>\<open>undefined\<close>; \<^verbatim>\<open>constructor.name\<close> returns as well.
\<close>

theorem getPath_lenient_witness:
  "[''constructor'', ''name''] \<noteq> []
   \<and> CHR ''.'' \<notin> set ''constructor'' \<and> ''constructor'' \<noteq> ''caller''
   \<and> ''constructor'' \<noteq> ''arguments''
   \<and> CHR ''.'' \<notin> set ''name'' \<and> ''name'' \<noteq> ''caller'' \<and> ''name'' \<noteq> ''arguments''
   \<and> (\<exists>v. getPath (JObj [(''site'', JObj [(''title'', JNull)]), (''name'', JStr ''x'')])
             (join_dot [''constructor'', ''name'']) = Inr v)
   \<and> CHR ''.'' \<notin> set ''site''
   \<and> \<not> is_nullish (JObj [(''site'', JObj [(''title'', JNull)]), (''name'', JStr ''x'')])
   \<and> getPath (JObj [(''site'', JObj [(''title'', JNull)]), (''name'', JStr ''x'')]) ''site''
       = Inr (JObj [(''title'', JNull)])
   \<and> CHR ''.'' \<notin> set ''title''
   \<and> map_of [(''title'', JNull)] ''title'' = Some JNull
   \<and> getPath (JObj [(''site'', JObj [(''title'', JNull)]), (''name'', JStr ''x'')])
         ''site.title'' = Inr JNull
   \<and> is_nullish JNull
   \<and> getPath (JObj [(''site'', JObj [(''title'', JNull)]), (''name'', JStr ''x'')])
         ''site.title.length.x'' = Inr JNull
   \<and> getPath (JObj [(''site'', JObj [(''title'', JNull)]), (''name'', JStr ''x'')]) ''name''
       = Inr (JStr ''x'')
   \<and> \<not> is_nullish (JStr ''x'')
   \<and> getPath (JObj [(''site'', JObj [(''title'', JNull)]), (''name'', JStr ''x'')])
         ''name.title'' = Inr JUndefined
   \<and> getPath JUndefined ''site.title'' = Inr JUndefined"
proof -
  let ?doc = "JObj [(''site'', JObj [(''title'', JNull)]), (''name'', JStr ''x'')]"
  have c1: "\<exists>v. getPath ?doc (join_dot [''constructor'', ''name'']) = Inr v"
    using getPath_lenient [where object = ?doc and keys = "[''constructor'', ''name'']"]
    by simp
  have c2: "getPath ?doc ''site'' = Inr (JObj [(''title'', JNull)])"
    using getPath_lenient [where object = ?doc and key = "''site''"]
    by (simp add: get_prop_def)
  have c4: "getPath ?doc ''site.title'' = Inr JNull"
    using getPath_lenient [where object = ?doc and p = "''site''" and key = "''title''"
        and ms = "[(''title'', JNull)]" and x = JNull] c2
    by simp
  have c5: "getPath ?doc ''site.title.length.x'' = Inr JNull"
    using getPath_lenient [where object = ?doc and p = "''site.title''" and b = JNull
        and rest = "''length.x''"] c4
    by simp
  have n: "getPath ?doc ''name'' = Inr (JStr ''x'')"
    using getPath_lenient [where object = ?doc and key = "''name''"]
    by (simp add: get_prop_def)
  have c3: "getPath ?doc ''name.title'' = Inr JUndefined"
    using getPath_lenient [where object = ?doc and p = "''name''" and key = "''title''"
        and a = "JStr ''x''"] n
    by (simp add: get_prop_def parse_index_def is_digit_def methods_def)
  have c6: "getPath JUndefined ''site.title'' = Inr JUndefined"
    using getPath_lenient [where object = JUndefined and p = "''site.title''"]
    by simp
  from c1 c2 c3 c4 c5 c6 n show ?thesis by simp
qed

text \<open>
  C9 as worded fails on the empty object and the path \<^verbatim>\<open>constructor.caller\<close>: the first
  piece finds the inherited constructor, a function, and reading \<^verbatim>\<open>caller\<close> from a built-in
  function throws.
\<close>

theorem getPath_lenient_counterexample:
  "getPath (JObj []) ''constructor'' = Inr (JConstructor KObject)
   \<and> getPath (JObj []) ''constructor.caller'' = Inl TypeError"
  by (simp add: getPath_def get_prop_def methods_def)

section \<open>Properties of the validation\<close>

lemma getPath_required: "p \<in> set requiredPaths \<Longrightarrow> \<exists>v. getPath doc p = Inr v"
  by (auto simp: requiredPaths_def getPath_def intro!: reduce_path_safe)

lemma check_paths_first_absent:
  "\<forall>r \<in> set pre. \<exists>v. getPath doc r = Inr v
    \<Longrightarrow> \<forall>r \<in> set pre. \<not> resolves_absent doc r \<Longrightarrow> resolves_absent doc p
    \<Longrightarrow> check_paths doc (pre @ p # post) = Inl (MissingKey p)"
proof (induction pre)
  case Nil
  then show ?case by (simp add: resolves_absent_def split: sum.splits)
next
  case (Cons r pre)
  from Cons.prems(1) obtain v where v: "getPath doc r = Inr v" by auto
  with Cons.prems have "\<not> is_nullish v" by (simp add: resolves_absent_def)
  with v Cons show ?case by simp
qed

lemma check_paths_present:
  "\<forall>p \<in> set paths. \<exists>v. getPath doc p = Inr v \<and> \<not> is_nullish v
    \<Longrightarrow> check_paths doc paths = Inr ()"
  by (induction paths) auto

lemma check_project_keys_ok:
  "\<forall>k \<in> set keys. field_ok entry k \<Longrightarrow> check_project_keys index entry keys = Inr ()"
  by (induction keys) (auto simp: field_ok_def split: sum.splits)

lemma check_projects_ok:
  "\<forall>entry \<in> set ps. field_ok entry ''codename'' \<and> field_ok entry ''description''
    \<Longrightarrow> check_projects index ps = Inr ()"
proof (induction ps arbitrary: index)
  case Nil
  show ?case by simp
next
  case (Cons entry ps)
  have "check_project_keys index entry [''codename'', ''description''] = Inr ()"
    using Cons.prems by (intro check_project_keys_ok) auto
  moreover have "check_projects (Suc index) ps = Inr ()"
    using Cons by simp
  ultimately show ?case by (simp del: check_project_keys.simps)
qed

lemma check_project_keys_missing:
  assumes "\<not> is_nullish entry"
    and "(key = ''codename'' \<and> field_missing entry ''codename'')
         \<or> (key = ''description'' \<and> field_ok entry ''codename''
              \<and> field_missing entry ''description'')"
  shows "check_project_keys index entry [''codename'', ''description'']
           = Inl (MissingProjectField index key)"
proof -
  obtain c where c: "get_prop entry ''codename'' = Inr c"
    using get_prop_safe [OF assms(1), of "''codename''"] by auto
  obtain d where d: "get_prop entry ''description'' = Inr d"
    using get_prop_safe [OF assms(1), of "''description''"] by auto
  from assms(2) c d show ?thesis
    by (auto simp: field_ok_def field_missing_def split: sum.splits)
qed

lemma check_projects_first_missing:
  "i < length ps
    \<Longrightarrow> \<forall>j<i. field_ok (ps ! j) ''codename'' \<and> field_ok (ps ! j) ''description''
    \<Longrightarrow> check_project_keys (index + i) (ps ! i) [''codename'', ''description''] = Inl e
    \<Longrightarrow> check_projects index ps = Inl e"
proof (induction ps arbitrary: i index)
  case Nil
  then show ?case by simp
next
  case (Cons entry ps)
  show ?case
  proof (cases i)
    case 0
    with Cons.prems show ?thesis by (simp del: check_project_keys.simps)
  next
    case (Suc i')
    have first: "check_project_keys index entry [''codename'', ''description''] = Inr ()"
      using Cons.prems(2) Suc by (intro check_project_keys_ok) auto
    have rest: "\<forall>j<i'. field_ok (ps ! j) ''codename'' \<and> field_ok (ps ! j) ''description''"
      using Cons.prems(2) Suc by auto
    have "check_projects (Suc index) ps = Inl e"
      using Cons.IH [of i' "Suc index"] Cons.prems Suc rest by simp
    with first show ?thesis by (simp del: check_project_keys.simps)
  qed
qed

text \<open>
  C1. When at least one of the six required dot-paths of a document resolves to an
  absent value, \<open>validateI18n\<close> throws the missing-key error that names the first such path
  in the listed order, whatever the document's \<^verbatim>\<open>projects\<close> hold; it does not accept the
  document.
\<close>

theorem validateI18n_missing_key:
  assumes "q \<in> set requiredPaths" and "resolves_absent doc q"
  shows "\<exists>pre p post.
           requiredPaths = pre @ p # post
           \<and> (\<forall>r \<in> set pre. \<not> resolves_absent doc r)
           \<and> resolves_absent doc p
           \<and> validateI18n doc = Inl (MissingKey p)
           \<and> validateI18n doc \<noteq> Inr ()"
proof -
  from assms have "\<exists>x \<in> set requiredPaths. resolves_absent doc x" by blast
  from split_list_first_prop [OF this]
  obtain pre p post where d: "requiredPaths = pre @ p # post"
      and p: "resolves_absent doc p" and pre: "\<forall>r \<in> set pre. \<not> resolves_absent doc r"
    by blast
  have "\<forall>r \<in> set pre. r \<in> set requiredPaths"
    by (simp add: d)
  then have "\<forall>r \<in> set pre. \<exists>v. getPath doc r = Inr v"
    by (blast intro: getPath_required)
  then have "check_paths doc (pre @ p # post) = Inl (MissingKey p)"
    using pre p by (rule check_paths_first_absent)
  with d have "validateI18n doc = Inl (MissingKey p)"
    by (simp add: validateI18n_def)
  with d p pre show ?thesis by auto
qed

text \<open>
  A document with a title only: \<^verbatim>\<open>labels.visit\<close> is absent, and so is \<^verbatim>\<open>site.tagline\<close>, which
  comes first and is the path named.
\<close>

theorem validateI18n_missing_key_witness:
  "''labels.visit'' \<in> set requiredPaths
   \<and> resolves_absent (JObj [(''site'', JObj [(''title'', JStr ''Capri'')])]) ''labels.visit''
   \<and> (\<exists>pre p post.
         requiredPaths = pre @ p # post
         \<and> (\<forall>r \<in> set pre.
               \<not> resolves_absent (JObj [(''site'', JObj [(''title'', JStr ''Capri'')])]) r)
         \<and> resolves_absent (JObj [(''site'', JObj [(''title'', JStr ''Capri'')])]) p
         \<and> validateI18n (JObj [(''site'', JObj [(''title'', JStr ''Capri'')])])
             = Inl (MissingKey p)
         \<and> validateI18n (JObj [(''site'', JObj [(''title'', JStr ''Capri'')])]) \<noteq> Inr ())
   \<and> validateI18n (JObj [(''site'', JObj [(''title'', JStr ''Capri'')])])
       = Inl (MissingKey ''site.tagline'')"
proof -
  have h1: "''labels.visit'' \<in> set requiredPaths"
    by (simp add: requiredPaths_def)
  have h2: "resolves_absent (JObj [(''site'', JObj [(''title'', JStr ''Capri'')])])
              ''labels.visit''"
    by (simp add: resolves_absent_def getPath_def get_prop_def methods_def)
  have v: "validateI18n (JObj [(''site'', JObj [(''title'', JStr ''Capri'')])])
             = Inl (MissingKey ''site.tagline'')"
    by (simp add: validateI18n_def requiredPaths_def getPath_def get_prop_def methods_def)
  from validateI18n_missing_key [OF h1 h2] h1 h2 v show ?thesis by blast
qed

text \<open>
  C10. The validation checks presence, not type: a document is accepted as soon as each
  of the six required dot-paths resolves to a value that is neither \<^verbatim>\<open>null\<close> nor
  \<^verbatim>\<open>undefined\<close>, \<^verbatim>\<open>projects\<close> is an array, and the \<^verbatim>\<open>codename\<close> and \<^verbatim>\<open>description\<close> of every
  entry convert to text that is not blank. Nothing asks the values to be strings.
\<close>

theorem validateI18n_presence_only:
  assumes "\<forall>p \<in> set requiredPaths. \<exists>v. getPath doc p = Inr v \<and> \<not> is_nullish v"
    and "get_prop doc ''projects'' = Inr (JArr ps)"
    and "\<forall>entry \<in> set ps. field_ok entry ''codename'' \<and> field_ok entry ''description''"
  shows "validateI18n doc = Inr ()"
proof -
  have "check_paths doc requiredPaths = Inr ()"
    using assms(1) by (rule check_paths_present)
  moreover have "check_projects 0 ps = Inr ()"
    using assms(3) by (rule check_projects_ok)
  ultimately show ?thesis using assms(2) by (simp add: validateI18n_def)
qed

text \<open>
  A document whose title, tagline, heading, label and copyright are numbers, with one
  entry whose codename is a number and whose description is a boolean, is accepted.
\<close>

theorem validateI18n_presence_only_witness:
  "map (getPath (JObj [(''site'', JObj [(''title'', JNum 7), (''tagline'', JNum 0)]),
                     (''sections'', JObj [(''projects'', JNum 1)]),
                     (''labels'', JObj [(''visit'', JNum 2)]),
                     (''footer'', JObj [(''copyright'', JNum 2025)]),
                     (''projects'', JArr [JObj [(''codename'', JNum 42),
                                                (''description'', JBool False)]])]))
       requiredPaths
     = [Inr (JNum 7), Inr (JNum 0), Inr (JNum 1), Inr (JNum 2), Inr (JNum 2025),
        Inr (JArr [JObj [(''codename'', JNum 42), (''description'', JBool False)]])]
   \<and> field_ok (JObj [(''codename'', JNum 42), (''description'', JBool False)]) ''codename''
   \<and> field_ok (JObj [(''codename'', JNum 42), (''description'', JBool False)]) ''description''
   \<and> validateI18n (JObj [(''site'', JObj [(''title'', JNum 7), (''tagline'', JNum 0)]),
                     (''sections'', JObj [(''projects'', JNum 1)]),
                     (''labels'', JObj [(''visit'', JNum 2)]),
                     (''footer'', JObj [(''copyright'', JNum 2025)]),
                     (''projects'', JArr [JObj [(''codename'', JNum 42),
                                                (''description'', JBool False)]])]) = Inr ()"
proof -
  let ?ps = "[JObj [(''codename'', JNum 42), (''description'', JBool False)]]"
  let ?doc = "JObj [(''site'', JObj [(''title'', JNum 7), (''tagline'', JNum 0)]),
                     (''sections'', JObj [(''projects'', JNum 1)]),
                     (''labels'', JObj [(''visit'', JNum 2)]),
                     (''footer'', JObj [(''copyright'', JNum 2025)]),
                     (''projects'', JArr ?ps)]"
  have m: "map (getPath ?doc) requiredPaths
             = [Inr (JNum 7), Inr (JNum 0), Inr (JNum 1), Inr (JNum 2), Inr (JNum 2025),
                Inr (JArr ?ps)]"
    by (simp add: requiredPaths_def getPath_def get_prop_def methods_def)
  have h1: "\<forall>p \<in> set requiredPaths. \<exists>v. getPath ?doc p = Inr v \<and> \<not> is_nullish v"
    by (simp add: requiredPaths_def getPath_def get_prop_def methods_def)
  have h2: "get_prop ?doc ''projects'' = Inr (JArr ?ps)"
    by (simp add: get_prop_def)
  have n: "show_nat 42 = ''42''"
    by (simp add: show_nat.simps)
  have f: "field_ok (?ps ! 0) ''codename'' \<and> field_ok (?ps ! 0) ''description''"
    by (simp add: field_ok_def get_prop_def show_int_def n trim_def is_space_def)
  then have h3: "\<forall>entry \<in> set ?ps. field_ok entry ''codename'' \<and> field_ok entry ''description''"
    by simp
  from validateI18n_presence_only [OF h1 h2 h3] m f show ?thesis by simp
qed

text \<open>
  C4, as the code has it. The entries are checked only once the six required dot-paths
  are present, and the check stops at the first field that fails: in a document whose
  required paths are all present and whose \<^verbatim>\<open>projects\<close> is an array, when every entry
  before index \<open>i\<close> has a usable \<^verbatim>\<open>codename\<close> and \<^verbatim>\<open>description\<close> and the entry at \<open>i\<close> is not
  \<^verbatim>\<open>null\<close> and has a \<^verbatim>\<open>codename\<close> that is absent, empty or blank (or a usable \<^verbatim>\<open>codename\<close> and
  such a \<^verbatim>\<open>description\<close>), \<open>validateI18n\<close> throws the error that names index \<open>i\<close> and that
  field.
\<close>

theorem validateI18n_missing_project_field:
  assumes "\<forall>p \<in> set requiredPaths. \<exists>v. getPath doc p = Inr v \<and> \<not> is_nullish v"
    and "get_prop doc ''projects'' = Inr (JArr ps)"
    and "i < length ps"
    and "\<forall>j<i. field_ok (ps ! j) ''codename'' \<and> field_ok (ps ! j) ''description''"
    and "\<not> is_nullish (ps ! i)"
    and "(key = ''codename'' \<and> field_missing (ps ! i) ''codename'')
         \<or> (key = ''description'' \<and> field_ok (ps ! i) ''codename''
              \<and> field_missing (ps ! i) ''description'')"
  shows "validateI18n doc = Inl (MissingProjectField i key)"
proof -
  have paths: "check_paths doc requiredPaths = Inr ()"
    using assms(1) by (rule check_paths_present)
  have "check_project_keys (0 + i) (ps ! i) [''codename'', ''description'']
          = Inl (MissingProjectField (0 + i) key)"
    using assms(5,6) by (rule check_project_keys_missing)
  with assms(3,4) have "check_projects 0 ps = Inl (MissingProjectField (0 + i) key)"
    by (rule check_projects_first_missing)
  with paths assms(2) show ?thesis by (simp add: validateI18n_def)
qed

text \<open>
  Two entries, the second with a description of spaces only: index 1, \<^verbatim>\<open>description\<close>.
\<close>

theorem validateI18n_missing_project_field_witness:
  "map (getPath
          (JObj [(''site'', JObj [(''title'', JStr ''T''), (''tagline'', JStr ''G'')]),
                 (''sections'', JObj [(''projects'', JStr ''P'')]),
                 (''labels'', JObj [(''visit'', JStr ''Visit'')]),
                 (''footer'', JObj [(''copyright'', JStr ''C'')]),
                 (''projects'',
                    JArr [JObj [(''codename'', JStr ''Orbit''), (''description'', JStr ''A tool'')],
                          JObj [(''codename'', JStr ''Kite''), (''description'', JStr ''  '')]])]))
       requiredPaths
     = [Inr (JStr ''T''), Inr (JStr ''G''), Inr (JStr ''P''), Inr (JStr ''Visit''),
        Inr (JStr ''C''),
        Inr (JArr [JObj [(''codename'', JStr ''Orbit''), (''description'', JStr ''A tool'')],
                   JObj [(''codename'', JStr ''Kite''), (''description'', JStr ''  '')]])]
   \<and> (1::nat) < length [JObj [(''codename'', JStr ''Orbit''), (''description'', JStr ''A tool'')],
                         JObj [(''codename'', JStr ''Kite''), (''description'', JStr ''  '')]]
   \<and> field_ok (JObj [(''codename'', JStr ''Orbit''), (''description'', JStr ''A tool'')])
       ''codename''
   \<and> field_ok (JObj [(''codename'', JStr ''Orbit''), (''description'', JStr ''A tool'')])
       ''description''
   \<and> \<not> is_nullish (JObj [(''codename'', JStr ''Kite''), (''description'', JStr ''  '')])
   \<and> field_ok (JObj [(''codename'', JStr ''Kite''), (''description'', JStr ''  '')]) ''codename''
   \<and> field_missing (JObj [(''codename'', JStr ''Kite''), (''description'', JStr ''  '')])
       ''description''
   \<and> validateI18n
       (JObj [(''site'', JObj [(''title'', JStr ''T''), (''tagline'', JStr ''G'')]),
              (''sections'', JObj [(''projects'', JStr ''P'')]),
              (''labels'', JObj [(''visit'', JStr ''Visit'')]),
              (''footer'', JObj [(''copyright'', JStr ''C'')]),
              (''projects'',
                 JArr [JObj [(''codename'', JStr ''Orbit''), (''description'', JStr ''A tool'')],
                       JObj [(''codename'', JStr ''Kite''), (''description'', JStr ''  '')]])])
       = Inl (Error ''Project at index 1 is missing key: description'')"
proof -
  let ?ps = "[JObj [(''codename'', JStr ''Orbit''), (''description'', JStr ''A tool'')],
              JObj [(''codename'', JStr ''Kite''), (''description'', JStr ''  '')]]"
  let ?doc = "JObj [(''site'', JObj [(''title'', JStr ''T''), (''tagline'', JStr ''G'')]),
                     (''sections'', JObj [(''projects'', JStr ''P'')]),
                     (''labels'', JObj [(''visit'', JStr ''Visit'')]),
                     (''footer'', JObj [(''copyright'', JStr ''C'')]),
                     (''projects'', JArr ?ps)]"
  have m: "map (getPath ?doc) requiredPaths
             = [Inr (JStr ''T''), Inr (JStr ''G''), Inr (JStr ''P''), Inr (JStr ''Visit''),
                Inr (JStr ''C''), Inr (JArr ?ps)]"
    by (simp add: requiredPaths_def getPath_def get_prop_def methods_def)
  have h1: "\<forall>p \<in> set requiredPaths. \<exists>v. getPath ?doc p = Inr v \<and> \<not> is_nullish v"
    by (simp add: requiredPaths_def getPath_def get_prop_def methods_def)
  have h2: "get_prop ?doc ''projects'' = Inr (JArr ?ps)"
    by (simp add: get_prop_def)
  have h3: "(1::nat) < length ?ps"
    by simp
  have ok0: "field_ok (?ps ! 0) ''codename'' \<and> field_ok (?ps ! 0) ''description''"
    by (simp add: field_ok_def get_prop_def trim_def is_space_def)
  then have h4: "\<forall>j<1::nat. field_ok (?ps ! j) ''codename'' \<and> field_ok (?ps ! j) ''description''"
    by simp
  have ok: "field_ok (?ps ! 1) ''codename''"
    by (simp add: field_ok_def get_prop_def trim_def is_space_def)
  have miss: "field_missing (?ps ! 1) ''description''"
    by (simp add: field_missing_def get_prop_def trim_def is_space_def)
  have nn: "\<not> is_nullish (?ps ! 1)"
    by simp
  have h5: "(''description'' = ''codename'' \<and> field_missing (?ps ! 1) ''codename'')
         \<or> (''description'' = ''description'' \<and> field_ok (?ps ! 1) ''codename''
              \<and> field_missing (?ps ! 1) ''description'')"
    using ok miss by simp
  have e: "MissingProjectField 1 ''description''
             = Error ''Project at index 1 is missing key: description''"
    by (simp add: MissingProjectField_def show_nat.simps)
  from validateI18n_missing_project_field [OF h1 h2 h3 h4 nn h5] m h3 ok0 ok miss e
  show ?thesis by simp
qed

text \<open>
  C4 as worded fails on three documents. In the first, \<^verbatim>\<open>projects\<close> is an array whose entry
  0 has no \<^verbatim>\<open>codename\<close>, and the error is the missing \<^verbatim>\<open>site.title\<close>. In the second, all
  required paths are present and entries 0 and 1 both lack a \<^verbatim>\<open>codename\<close>; the error names
  index 0, not index 1. In the third, all required paths are present and the only entry
  is \<^verbatim>\<open>null\<close>, which has no \<^verbatim>\<open>codename\<close>; reading it throws a \<^verbatim>\<open>TypeError\<close>.
\<close>

theorem validateI18n_missing_project_field_counterexample:
  "get_prop (JObj [(''projects'', JArr [JObj []])]) ''projects'' = Inr (JArr [JObj []])
   \<and> field_missing ([JObj []] ! 0) ''codename''
   \<and> validateI18n (JObj [(''projects'', JArr [JObj []])]) = Inl (MissingKey ''site.title'')
   \<and> validateI18n (JObj [(''projects'', JArr [JObj []])])
       \<noteq> Inl (MissingProjectField 0 ''codename'')
   \<and> field_missing ([JObj [], JObj []] ! 1) ''codename''
   \<and> validateI18n
       (sample_with (JStr ''T'') (JStr ''G'') (JStr ''P'') (JStr ''Visit'') (JStr ''C'')
          [JObj [], JObj []])
       = Inl (MissingProjectField 0 ''codename'')
   \<and> MissingProjectField 0 ''codename'' \<noteq> MissingProjectField 1 ''codename''
   \<and> field_missing ([JNull] ! 0) ''codename''
   \<and> validateI18n
       (sample_with (JStr ''T'') (JStr ''G'') (JStr ''P'') (JStr ''Visit'') (JStr ''C'') [JNull])
       = Inl TypeError
   \<and> TypeError \<noteq> MissingProjectField 0 ''codename''"
  by (simp add: validateI18n_def requiredPaths_def getPath_def get_prop_def methods_def
      field_missing_def MissingKey_def MissingProjectField_def show_nat.simps)

section \<open>Properties of the language resolution\<close>

lemma truthy_not_nullish: "truthy v \<Longrightarrow> \<not> is_nullish v"
  by (cases v) simp_all

lemma configured_safe:
  assumes "name \<noteq> ''caller''" and "name \<noteq> ''arguments''"
  shows "\<exists>v. configured config name = Inr v"
proof (cases "truthy config")
  case True
  then have "\<not> is_nullish config" by (rule truthy_not_nullish)
  then show ?thesis using get_prop_safe [of config name] True assms
    by (simp add: configured_def)
next
  case False
  then show ?thesis by (simp add: configured_def)
qed

lemma default_language_total: "\<exists>v. default_language config = Inr v"
  using configured_safe [of "''defaultLanguage''" config]
  by (auto simp: default_language_def)

lemma getLanguage_total: "\<exists>v. getLanguage search config = Inr v"
  using default_language_total [of config]
  by (auto simp: getLanguage_def Let_def split: sum.splits)

lemma getLanguage_unusable:
  "lang_unusable search \<Longrightarrow> getLanguage search config = default_language config"
  by (auto simp: lang_unusable_def getLanguage_def lang_candidate_def Let_def trim_def
      split: sum.splits option.splits)

lemma params_get_first:
  "name \<notin> fst ` set pre \<Longrightarrow> params_get (pre @ (name, x) # post) name = Some x"
  by (induction pre) (auto simp: params_get_def)

lemma dropWhile_hd_id: "xs \<noteq> [] \<Longrightarrow> \<not> P (hd xs) \<Longrightarrow> dropWhile P xs = xs"
  by (cases xs) simp_all

lemma trim_id: "x \<noteq> [] \<Longrightarrow> \<not> is_space (hd x) \<Longrightarrow> \<not> is_space (last x) \<Longrightarrow> trim x = x"
  by (simp add: trim_def dropWhile_hd_id hd_rev)

text \<open>
  C7. The resolver never fails. When the page URL carries no usable \<^verbatim>\<open>lang\<close> (the query
  does not parse, the parameter is absent, or its value is empty or blank), it returns
  the configured default language when the configuration has one, and the literal \<^verbatim>\<open>en\<close>
  when no configuration is supplied or the configuration names no default language.
\<close>

theorem getLanguage_default:
  "(\<exists>v. getLanguage search config = Inr v)
   \<and> (lang_unusable search \<and> truthy config
        \<and> get_prop config ''defaultLanguage'' = Inr d \<and> truthy d
        \<longrightarrow> getLanguage search config = Inr d)
   \<and> (lang_unusable search \<and> config = JUndefined
        \<longrightarrow> getLanguage search config = Inr (JStr ''en''))
   \<and> (lang_unusable search \<and> truthy config
        \<and> get_prop config ''defaultLanguage'' = Inr d \<and> \<not> truthy d
        \<longrightarrow> getLanguage search config = Inr (JStr ''en''))"
  using getLanguage_total [of search config]
  by (auto simp: getLanguage_unusable default_language_def configured_def or_else_def)

text \<open>
  A blank \<^verbatim>\<open>lang\<close> with the default \<^verbatim>\<open>fr\<close> configured gives \<^verbatim>\<open>fr\<close>; a query that does not
  parse, on a page without configuration, gives \<^verbatim>\<open>en\<close>; so does a configuration that
  sets the resource path only.
\<close>

theorem getLanguage_default_witness:
  "lang_unusable (Inr [(''lang'', ''  '')])
   \<and> truthy (JObj [(''defaultLanguage'', JStr ''fr'')])
   \<and> get_prop (JObj [(''defaultLanguage'', JStr ''fr'')]) ''defaultLanguage'' = Inr (JStr ''fr'')
   \<and> truthy (JStr ''fr'')
   \<and> getLanguage (Inr [(''lang'', ''  '')]) (JObj [(''defaultLanguage'', JStr ''fr'')])
       = Inr (JStr ''fr'')
   \<and> lang_unusable (Inl SyntaxError)
   \<and> getLanguage (Inl SyntaxError) JUndefined = Inr (JStr ''en'')
   \<and> lang_unusable (Inr [(''theme'', ''dark'')])
   \<and> get_prop (JObj [(''i18nPath'', JStr ''locales'')]) ''defaultLanguage'' = Inr JUndefined
   \<and> \<not> truthy JUndefined
   \<and> getLanguage (Inr [(''theme'', ''dark'')]) (JObj [(''i18nPath'', JStr ''locales'')])
       = Inr (JStr ''en'')"
proof -
  have u1: "lang_unusable (Inr [(''lang'', ''  '')])"
    by (simp add: lang_unusable_def params_get_def trim_def is_space_def)
  have a: "getLanguage (Inr [(''lang'', ''  '')]) (JObj [(''defaultLanguage'', JStr ''fr'')])
             = Inr (JStr ''fr'')"
    using getLanguage_default [where search = "Inr [(''lang'', ''  '')]"
        and config = "JObj [(''defaultLanguage'', JStr ''fr'')]" and d = "JStr ''fr''"] u1
    by (simp add: get_prop_def)
  have u2: "lang_unusable (Inl SyntaxError)"
    by (simp add: lang_unusable_def)
  have b: "getLanguage (Inl SyntaxError) JUndefined = Inr (JStr ''en'')"
    using getLanguage_default [where search = "Inl SyntaxError" and config = JUndefined] u2
    by simp
  have u3: "lang_unusable (Inr [(''theme'', ''dark'')])"
    by (simp add: lang_unusable_def params_get_def)
  have c: "getLanguage (Inr [(''theme'', ''dark'')]) (JObj [(''i18nPath'', JStr ''locales'')])
             = Inr (JStr ''en'')"
    using getLanguage_default [where search = "Inr [(''theme'', ''dark'')]"
        and config = "JObj [(''i18nPath'', JStr ''locales'')]" and d = JUndefined] u3
    by (simp add: get_prop_def methods_def)
  from u1 a u2 b u3 c show ?thesis by (simp add: get_prop_def methods_def)
qed

text \<open>
  C6, as the code has it. When the first \<^verbatim>\<open>lang\<close> parameter of the query has a value \<open>x\<close>
  that is not blank, the resolver returns \<open>x\<close> with the white space at its ends removed,
  whatever else the query holds and whatever the configuration; when \<open>x\<close> neither starts
  nor ends with white space, that is \<open>x\<close> itself.
\<close>

theorem getLanguage_query:
  assumes "params = pre @ (''lang'', x) # post" and "''lang'' \<notin> fst ` set pre"
    and "trim x \<noteq> []"
  shows "getLanguage (Inr params) config = Inr (JStr (trim x))
         \<and> (\<not> is_space (hd x) \<and> \<not> is_space (last x)
              \<longrightarrow> getLanguage (Inr params) config = Inr (JStr x))"
proof -
  have g: "params_get params ''lang'' = Some x"
    using assms(1,2) by (simp add: params_get_first)
  have x: "x \<noteq> []" using assms(3) by (auto simp: trim_def)
  with g have "lang_candidate params = trim x"
    by (simp add: lang_candidate_def)
  with assms(3) have r: "getLanguage (Inr params) config = Inr (JStr (trim x))"
    by (simp add: getLanguage_def)
  with x show ?thesis by (auto simp: trim_id)
qed

text \<open>
  The query \<^verbatim>\<open>?theme=&lang=pt-BR&lang=de&=%zz\<close>, as the platform decodes it, gives \<^verbatim>\<open>pt-BR\<close>.
\<close>

theorem getLanguage_query_witness:
  "[(''theme'', ''''), (''lang'', ''pt-BR''), (''lang'', ''de''), ('''', ''%zz'')]
     = [(''theme'', '''')] @ (''lang'', ''pt-BR'') # [(''lang'', ''de''), ('''', ''%zz'')]
   \<and> ''lang'' \<notin> fst ` set [(''theme'', '''')]
   \<and> trim ''pt-BR'' \<noteq> []
   \<and> \<not> is_space (hd ''pt-BR'') \<and> \<not> is_space (last ''pt-BR'')
   \<and> getLanguage
         (Inr [(''theme'', ''''), (''lang'', ''pt-BR''), (''lang'', ''de''), ('''', ''%zz'')])
         (JObj [(''defaultLanguage'', JStr ''fr'')])
       = Inr (JStr ''pt-BR'')"
proof -
  have h1: "[(''theme'', ''''), (''lang'', ''pt-BR''), (''lang'', ''de''), ('''', ''%zz'')]
     = [(''theme'', '''')] @ (''lang'', ''pt-BR'') # [(''lang'', ''de''), ('''', ''%zz'')]"
    by simp
  have h2: "''lang'' \<notin> fst ` set [(''theme'', '''')]"
    by simp
  have h3: "trim ''pt-BR'' \<noteq> []"
    by (simp add: trim_def is_space_def)
  have h4: "\<not> is_space (hd ''pt-BR'') \<and> \<not> is_space (last ''pt-BR'')"
    by (simp add: is_space_def)
  have r: "getLanguage
         (Inr [(''theme'', ''''), (''lang'', ''pt-BR''), (''lang'', ''de''), ('''', ''%zz'')])
         (JObj [(''defaultLanguage'', JStr ''fr'')])
       = Inr (JStr ''pt-BR'')"
    using getLanguage_query [OF h1 h2 h3, of "JObj [(''defaultLanguage'', JStr ''fr'')]"] h4
    by blast
  from h1 h2 h3 h4 r show ?thesis by blast
qed

text \<open>
  C6 as worded fails on two queries. With \<^verbatim>\<open>?lang=+fr\<close> the value is \<^verbatim>\<open>fr\<close> after a space,
  not blank, and the resolver returns \<^verbatim>\<open>fr\<close> without the space. With \<^verbatim>\<open>?lang=&lang=fr\<close> the
  query contains \<^verbatim>\<open>lang=fr\<close>, and the resolver returns the default.
\<close>

theorem getLanguage_query_counterexample:
  "(''lang'', '' fr'') \<in> set [(''lang'', '' fr'')]
   \<and> trim '' fr'' \<noteq> []
   \<and> getLanguage (Inr [(''lang'', '' fr'')]) JUndefined = Inr (JStr ''fr'')
   \<and> getLanguage (Inr [(''lang'', '' fr'')]) JUndefined \<noteq> Inr (JStr '' fr'')
   \<and> (''lang'', ''fr'') \<in> set [(''lang'', ''''), (''lang'', ''fr'')]
   \<and> trim ''fr'' \<noteq> []
   \<and> getLanguage (Inr [(''lang'', ''''), (''lang'', ''fr'')]) JUndefined = Inr (JStr ''en'')
   \<and> getLanguage (Inr [(''lang'', ''''), (''lang'', ''fr'')]) JUndefined \<noteq> Inr (JStr ''fr'')"
  by (simp add: getLanguage_def lang_candidate_def params_get_def trim_def is_space_def
      default_language_def configured_def or_else_def)

section \<open>Properties of the resource loading\<close>

lemma loadI18n_fetch:
  assumes "configured config ''i18nPath'' = Inr p"
    and "to_string (or_else p (JStr ''i18n'')) = Inr base"
  shows "loadI18n config fetch (JStr language) w =
           (let url = base @ ''/'' @ encodeURIComponent language @ ''.json'';
                w' = w\<lparr>requests := requests w @ [url]\<rparr>
            in case fetch url of
                 Inl e \<Rightarrow> (Inl e, w')
               | Inr r \<Rightarrow>
                   if \<not> ok r then (Inl (ResourceUnavailable url (status r)), w')
                   else (case json r of
                           Inl _ \<Rightarrow> (Inl (MalformedResource language), w')
                         | Inr v \<Rightarrow> (Inr v, w')))"
  using assms by (simp add: loadI18n_def)

lemma base_path_configured:
  assumes "truthy config" and "get_prop config ''i18nPath'' = Inr p" and "truthy p"
    and "to_string p = Inr base"
  shows "configured config ''i18nPath'' = Inr p"
    and "to_string (or_else p (JStr ''i18n'')) = Inr base"
  using assms by (simp_all add: configured_def or_else_def)

lemma base_path_default:
  assumes "\<not> truthy config \<or> (get_prop config ''i18nPath'' = Inr p \<and> \<not> truthy p)"
  shows "\<exists>q. configured config ''i18nPath'' = Inr q
             \<and> to_string (or_else q (JStr ''i18n'')) = Inr ''i18n''"
  using assms by (auto simp: configured_def or_else_def)

text \<open>
  C5. Let \<open>base\<close> be the configured base path: the text of the configuration's \<^verbatim>\<open>i18nPath\<close>
  when the page has a configuration and that member is truthy, and \<^verbatim>\<open>i18n\<close> when the page
  has no configuration or the member is missing or empty. \<open>loadI18n\<close> requests exactly the
  location \<open>base\<close>, a slash, the percent-encoded language code, \<^verbatim>\<open>.json\<close>. When the response
  is not a success it throws the error that carries that location and the status code;
  when the response is a success whose body does not parse it throws the error that
  carries the language code.
\<close>

theorem loadI18n_errors:
  assumes "truthy config \<and> get_prop config ''i18nPath'' = Inr p \<and> truthy p
             \<and> to_string p = Inr base
           \<or> (\<not> truthy config \<or> get_prop config ''i18nPath'' = Inr p \<and> \<not> truthy p)
             \<and> base = ''i18n''"
  shows "requests (snd (loadI18n config fetch (JStr language) w))
           = requests w @ [base @ ''/'' @ encodeURIComponent language @ ''.json'']
         \<and> (fetch (base @ ''/'' @ encodeURIComponent language @ ''.json'') = Inr r \<and> \<not> ok r
              \<longrightarrow> fst (loadI18n config fetch (JStr language) w)
                    = Inl (ResourceUnavailable
                             (base @ ''/'' @ encodeURIComponent language @ ''.json'') (status r)))
         \<and> (fetch (base @ ''/'' @ encodeURIComponent language @ ''.json'') = Inr r \<and> ok r
              \<and> json r = Inl e
              \<longrightarrow> fst (loadI18n config fetch (JStr language) w)
                    = Inl (MalformedResource language))"
proof -
  from assms obtain q where q: "configured config ''i18nPath'' = Inr q"
      and b: "to_string (or_else q (JStr ''i18n'')) = Inr base"
    using base_path_configured [of config p base] base_path_default [of config p]
    by blast
  show ?thesis
  proof (intro conjI impI)
    show "requests (snd (loadI18n config fetch (JStr language) w))
           = requests w @ [base @ ''/'' @ encodeURIComponent language @ ''.json'']"
      by (simp add: loadI18n_fetch [OF q b] Let_def split: sum.splits)
    show "fst (loadI18n config fetch (JStr language) w)
          = Inl (ResourceUnavailable
                   (base @ ''/'' @ encodeURIComponent language @ ''.json'') (status r))"
      if "fetch (base @ ''/'' @ encodeURIComponent language @ ''.json'') = Inr r \<and> \<not> ok r"
      using that by (simp add: loadI18n_fetch [OF q b] Let_def)
    show "fst (loadI18n config fetch (JStr language) w) = Inl (MalformedResource language)"
      if "fetch (base @ ''/'' @ encodeURIComponent language @ ''.json'') = Inr r \<and> ok r
          \<and> json r = Inl e"
      using that by (simp add: loadI18n_fetch [OF q b] Let_def)
  qed
qed

text \<open>
  With the path \<^verbatim>\<open>locales\<close> configured, the language \<^verbatim>\<open>fr\<close> is requested at
  \<^verbatim>\<open>locales/fr.json\<close>, and a 404 there gives the message with that location and \<^verbatim>\<open>404\<close>.
  Without configuration it is requested at \<^verbatim>\<open>i18n/fr.json\<close>, and a body that does not parse
  gives the message with \<^verbatim>\<open>fr\<close>. With an empty path configured, the language \<^verbatim>\<open>a/b c\<close> is
  requested at \<^verbatim>\<open>i18n/a%2Fb%20c.json\<close>.
\<close>

theorem loadI18n_errors_witness:
  "truthy (JObj [(''i18nPath'', JStr ''locales'')])
   \<and> get_prop (JObj [(''i18nPath'', JStr ''locales'')]) ''i18nPath'' = Inr (JStr ''locales'')
   \<and> truthy (JStr ''locales'')
   \<and> to_string (JStr ''locales'') = Inr ''locales''
   \<and> requests (snd (loadI18n (JObj [(''i18nPath'', JStr ''locales'')])
                       (\<lambda>u. Inr \<lparr>ok = False, status = 404, json = Inl SyntaxError\<rparr>)
                       (JStr ''fr'') sample_page))
       = [''locales/fr.json'']
   \<and> fst (loadI18n (JObj [(''i18nPath'', JStr ''locales'')])
            (\<lambda>u. Inr \<lparr>ok = False, status = 404, json = Inl SyntaxError\<rparr>)
            (JStr ''fr'') sample_page)
       = Inl (Error ''Failed to load i18n resource: locales/fr.json (404)'')
   \<and> \<not> truthy JUndefined
   \<and> requests (snd (loadI18n JUndefined
                       (\<lambda>u. Inr \<lparr>ok = True, status = 200, json = Inl SyntaxError\<rparr>)
                       (JStr ''fr'') sample_page))
       = [''i18n/fr.json'']
   \<and> fst (loadI18n JUndefined
            (\<lambda>u. Inr \<lparr>ok = True, status = 200, json = Inl SyntaxError\<rparr>)
            (JStr ''fr'') sample_page)
       = Inl (Error ''Malformed i18n JSON for language: fr'')
   \<and> get_prop (JObj [(''i18nPath'', JStr '''')]) ''i18nPath'' = Inr (JStr '''')
   \<and> \<not> truthy (JStr '''')
   \<and> requests (snd (loadI18n (JObj [(''i18nPath'', JStr '''')]) (\<lambda>u. Inl NetworkError)
                       (JStr ''a/b c'') sample_page))
       = [''i18n/a%2Fb%20c.json'']"
proof -
  let ?f404 = "\<lambda>u::string. (Inr \<lparr>ok = False, status = 404, json = Inl SyntaxError\<rparr>
                              :: error + response)"
  let ?fbad = "\<lambda>u::string. (Inr \<lparr>ok = True, status = 200, json = Inl SyntaxError\<rparr>
                              :: error + response)"
  let ?fnet = "\<lambda>u::string. (Inl NetworkError :: error + response)"
  let ?cfg = "JObj [(''i18nPath'', JStr ''locales'')]"
  let ?empty = "JObj [(''i18nPath'', JStr '''')]"
  have g1: "get_prop ?cfg ''i18nPath'' = Inr (JStr ''locales'')"
    by (simp add: get_prop_def)
  have g2: "get_prop ?empty ''i18nPath'' = Inr (JStr '''')"
    by (simp add: get_prop_def)
  have c1: "truthy ?cfg \<and> get_prop ?cfg ''i18nPath'' = Inr (JStr ''locales'')
             \<and> truthy (JStr ''locales'') \<and> to_string (JStr ''locales'') = Inr ''locales''
           \<or> (\<not> truthy ?cfg \<or> get_prop ?cfg ''i18nPath'' = Inr (JStr ''locales'')
                 \<and> \<not> truthy (JStr ''locales''))
             \<and> ''locales'' = ''i18n''"
    using g1 by simp
  have c2: "truthy JUndefined \<and> get_prop JUndefined ''i18nPath'' = Inr JUndefined
             \<and> truthy JUndefined \<and> to_string JUndefined = Inr ''i18n''
           \<or> (\<not> truthy JUndefined \<or> get_prop JUndefined ''i18nPath'' = Inr JUndefined
                 \<and> \<not> truthy JUndefined)
             \<and> ''i18n'' = ''i18n''"
    by simp
  have c3: "truthy ?empty \<and> get_prop ?empty ''i18nPath'' = Inr (JStr '''')
             \<and> truthy (JStr '''') \<and> to_string (JStr '''') = Inr ''i18n''
           \<or> (\<not> truthy ?empty \<or> get_prop ?empty ''i18nPath'' = Inr (JStr '''')
                 \<and> \<not> truthy (JStr ''''))
             \<and> ''i18n'' = ''i18n''"
    using g2 by simp
  have enc1: "encodeURIComponent ''fr'' = ''fr''"
    by (simp add: encodeURIComponent_def encode_unit_def unreserved_def)
  have enc2: "encodeURIComponent ''a/b c'' = ''a%2Fb%20c''"
    by (simp add: encodeURIComponent_def encode_unit_def unreserved_def percent_byte_def)
  have n: "show_nat 404 = ''404''"
    by (simp add: show_nat.simps)
  have a: "requests (snd (loadI18n ?cfg ?f404 (JStr ''fr'') sample_page)) = [''locales/fr.json'']"
    using loadI18n_errors [OF c1, where fetch = ?f404 and language = "''fr''"
        and w = sample_page]
    by (simp add: enc1)
  have b: "fst (loadI18n ?cfg ?f404 (JStr ''fr'') sample_page)
             = Inl (Error ''Failed to load i18n resource: locales/fr.json (404)'')"
    using loadI18n_errors [OF c1, where fetch = ?f404 and language = "''fr''"
        and w = sample_page
        and r = "\<lparr>ok = False, status = 404, json = Inl SyntaxError\<rparr>"]
    by (simp add: enc1 ResourceUnavailable_def n)
  have c: "requests (snd (loadI18n JUndefined ?fbad (JStr ''fr'') sample_page))
             = [''i18n/fr.json'']"
    using loadI18n_errors [OF c2, where fetch = ?fbad and language = "''fr''"
        and w = sample_page]
    by (simp add: enc1)
  have d: "fst (loadI18n JUndefined ?fbad (JStr ''fr'') sample_page)
             = Inl (Error ''Malformed i18n JSON for language: fr'')"
    using loadI18n_errors [OF c2, where fetch = ?fbad and language = "''fr''"
        and w = sample_page
        and r = "\<lparr>ok = True, status = 200, json = Inl SyntaxError\<rparr>" and e = SyntaxError]
    by (simp add: enc1 MalformedResource_def)
  have e: "requests (snd (loadI18n ?empty ?fnet (JStr ''a/b c'') sample_page))
             = [''i18n/a%2Fb%20c.json'']"
    using loadI18n_errors [OF c3, where fetch = ?fnet and language = "''a/b c''"
        and w = sample_page]
    by (simp add: enc2)
  from g1 g2 a b c d e show ?thesis by simp
qed

section \<open>Properties of the rendering\<close>

lemma bind_result_Inr [simp]: "bind_result (Inr v) f = f v"
  by (simp add: bind_result_def)

lemma bind_result_Inl [simp]: "bind_result (Inl e) f = Inl e"
  by (simp add: bind_result_def)

lemma el_plain [simp]: "el tag cls JUndefined [] = Inr (Element tag cls [] [])"
  by (simp add: el_def)

lemma el_text:
  "\<not> is_nullish v \<Longrightarrow> to_string v = Inr s
    \<Longrightarrow> el tag cls v [] = Inr (Element tag cls [] (text_children s))"
  by (simp add: el_def)

lemma by_class_text_children [simp]: "concat (map (by_class c) (text_children s)) = []"
  by (simp add: text_children_def)

lemma trim_nonempty: "trim s \<noteq> [] \<Longrightarrow> s \<noteq> []"
  by (auto simp: trim_def)

lemma field_okD:
  "field_ok entry key
    \<Longrightarrow> \<exists>v s. get_prop entry key = Inr v \<and> \<not> is_nullish v \<and> to_string v = Inr s \<and> s \<noteq> []"
  by (auto simp: field_ok_def trim_nonempty split: sum.splits)

lemma render_project_plain:
  assumes "get_prop entry ''codename'' = Inr c" "\<not> is_nullish c" "to_string c = Inr cs"
    and "get_prop entry ''description'' = Inr d" "\<not> is_nullish d" "to_string d = Inr ds"
    and "get_prop entry ''url'' = Inr u" "\<not> truthy u"
  shows "render_project i18n entry =
           Inr (Element ''article'' ''project-card'' []
                  [Element ''h3'' ''project-name'' [] (text_children cs),
                   Element ''p'' ''project-desc'' [] (text_children ds)])"
  using assms by (simp add: render_project_def el_text)

lemma render_project_linked:
  assumes "get_prop entry ''codename'' = Inr c" "\<not> is_nullish c" "to_string c = Inr cs"
    and "get_prop entry ''description'' = Inr d" "\<not> is_nullish d" "to_string d = Inr ds"
    and "get_prop entry ''url'' = Inr u" "truthy u" "to_string u = Inr us"
    and "getPath i18n ''labels.visit'' = Inr v" "\<not> is_nullish v" "to_string v = Inr vs"
  shows "render_project i18n entry =
           Inr (Element ''article'' ''project-card'' []
                  [Element ''h3'' ''project-name'' [] (text_children cs),
                   Element ''p'' ''project-desc'' [] (text_children ds),
                   Element ''div'' ''project-actions'' []
                     [Element ''a'' ''button-link''
                        [(''href'', us), (''target'', ''_blank''),
                         (''rel'', ''noopener noreferrer''),
                         (''aria-label'', vs @ '': '' @ cs)]
                        (text_children vs)]])"
  using assms by (simp add: render_project_def el_text el_def truthy_not_nullish)



lemma converts_iff: "converts v \<longleftrightarrow> (\<exists>s. to_string v = Inr s)"
  by (auto simp: converts_def split: sum.splits)




lemma check_paths_okD:
  "check_paths doc paths = Inr ()
    \<Longrightarrow> \<forall>p \<in> set paths. \<exists>v. getPath doc p = Inr v \<and> \<not> is_nullish v"
  by (induction paths) (auto split: sum.splits if_splits)

lemma validateI18n_paths:
  "validateI18n doc = Inr () \<Longrightarrow> p \<in> set requiredPaths
    \<Longrightarrow> \<exists>v. getPath doc p = Inr v \<and> \<not> is_nullish v"
  using check_paths_okD [of doc requiredPaths]
  by (auto simp: validateI18n_def split: sum.splits)

lemma check_project_keys_okD:
  "check_project_keys index entry [''codename'', ''description''] = Inr ()
    \<Longrightarrow> field_ok entry ''codename'' \<and> field_ok entry ''description''"
  by (auto simp: field_ok_def split: sum.splits if_splits)

lemma check_projects_okD:
  "check_projects index ps = Inr ()
    \<Longrightarrow> \<forall>entry \<in> set ps. field_ok entry ''codename'' \<and> field_ok entry ''description''"
proof (induction ps arbitrary: index)
  case Nil
  show ?case by simp
next
  case (Cons entry ps)
  from Cons.prems
  have first: "check_project_keys index entry [''codename'', ''description''] = Inr ()"
    and rest: "check_projects (Suc index) ps = Inr ()"
    by (auto simp del: check_project_keys.simps split: sum.splits)
  from check_project_keys_okD [OF first] Cons.IH [OF rest] show ?case by simp
qed

lemma validateI18n_okD:
  "validateI18n doc = Inr () \<Longrightarrow> get_prop doc ''projects'' = Inr (JArr ps)
    \<Longrightarrow> \<forall>entry \<in> set ps. field_ok entry ''codename'' \<and> field_ok entry ''description''"
  by (rule check_projects_okD [of 0]) (auto simp: validateI18n_def split: sum.splits)

lemma field_ok_readable: "field_ok entry key \<Longrightarrow> \<not> is_nullish entry"
  by (auto simp: field_ok_def get_prop_nullish)




lemma concat_map_singleton: "\<forall>x \<in> set xs. f x = [x] \<Longrightarrow> concat (map f xs) = xs"
  by (induction xs) simp_all

lemma render_project_card:
  assumes "field_ok entry ''codename''" and "field_ok entry ''description''"
    and "getPath i18n ''labels.visit'' = Inr v" and "\<not> is_nullish v"
    and "\<forall>u. get_prop entry ''url'' = Inr u \<and> truthy u \<longrightarrow> converts u \<and> converts v"
  shows "\<exists>article c cs d ds.
           render_project i18n entry = Inr article
           \<and> get_prop entry ''codename'' = Inr c \<and> to_string c = Inr cs
           \<and> get_prop entry ''description'' = Inr d \<and> to_string d = Inr ds
           \<and> by_class ''project-card'' article = [article]
           \<and> by_class ''project-name'' article
               = [Element ''h3'' ''project-name'' [] [TextNode cs]]
           \<and> by_class ''project-desc'' article
               = [Element ''p'' ''project-desc'' [] [TextNode ds]]"
proof -
  from field_okD [OF assms(1)] obtain c cs
    where c: "get_prop entry ''codename'' = Inr c" "\<not> is_nullish c" "to_string c = Inr cs"
      and cs: "cs \<noteq> []"
    by blast
  from field_okD [OF assms(2)] obtain d ds
    where d: "get_prop entry ''description'' = Inr d" "\<not> is_nullish d" "to_string d = Inr ds"
      and ds: "ds \<noteq> []"
    by blast
  have "\<not> is_nullish entry" using assms(1) by (rule field_ok_readable)
  then obtain u where u: "get_prop entry ''url'' = Inr u"
    using get_prop_safe [of entry "''url''"] by auto
  show ?thesis
  proof (cases "truthy u")
    case True
    with assms(5) u obtain us vs where s: "to_string u = Inr us" "to_string v = Inr vs"
      by (auto simp: converts_iff)
    show ?thesis
      using render_project_linked [OF c d u True s(1) assms(3,4) s(2)] c d cs ds
      by (simp add: text_children_def)
  next
    case False
    show ?thesis
      using render_project_plain [OF c d u False] c d cs ds
      by (simp add: text_children_def)
  qed
qed

lemma render_projects_cards:
  assumes "\<forall>entry \<in> set ps. field_ok entry ''codename'' \<and> field_ok entry ''description''"
    and "\<forall>entry \<in> set ps. \<forall>u.
           get_prop entry ''url'' = Inr u \<and> truthy u \<longrightarrow> converts u \<and> converts v"
    and "getPath i18n ''labels.visit'' = Inr v" and "\<not> is_nullish v"
  shows "\<exists>articles.
           render_projects i18n ps = Inr articles
           \<and> list_all2 (\<lambda>entry article.
                 \<exists>c cs d ds.
                   get_prop entry ''codename'' = Inr c \<and> to_string c = Inr cs
                   \<and> get_prop entry ''description'' = Inr d \<and> to_string d = Inr ds
                   \<and> by_class ''project-card'' article = [article]
                   \<and> by_class ''project-name'' article
                       = [Element ''h3'' ''project-name'' [] [TextNode cs]]
                   \<and> by_class ''project-desc'' article
                       = [Element ''p'' ''project-desc'' [] [TextNode ds]]) ps articles"
  using assms(1,2)
proof (induction ps)
  case Nil
  show ?case by simp
next
  case (Cons entry ps)
  from Cons.prems have ok: "field_ok entry ''codename''" "field_ok entry ''description''"
    by simp_all
  have "entry \<in> set (entry # ps)" by simp
  with Cons.prems(2)
  have url: "\<forall>u. get_prop entry ''url'' = Inr u \<and> truthy u \<longrightarrow> converts u \<and> converts v"
    by blast
  from render_project_card [OF ok assms(3,4) url] obtain article c cs d ds
    where a: "render_project i18n entry = Inr article"
      and f: "get_prop entry ''codename'' = Inr c" "to_string c = Inr cs"
        "get_prop entry ''description'' = Inr d" "to_string d = Inr ds"
        "by_class ''project-card'' article = [article]"
        "by_class ''project-name'' article = [Element ''h3'' ''project-name'' [] [TextNode cs]]"
        "by_class ''project-desc'' article = [Element ''p'' ''project-desc'' [] [TextNode ds]]"
    by blast
  from Cons.IH Cons.prems obtain articles
    where r: "render_projects i18n ps = Inr articles"
      and l: "list_all2 (\<lambda>entry article.
                 \<exists>c cs d ds.
                   get_prop entry ''codename'' = Inr c \<and> to_string c = Inr cs
                   \<and> get_prop entry ''description'' = Inr d \<and> to_string d = Inr ds
                   \<and> by_class ''project-card'' article = [article]
                   \<and> by_class ''project-name'' article
                       = [Element ''h3'' ''project-name'' [] [TextNode cs]]
                   \<and> by_class ''project-desc'' article
                       = [Element ''p'' ''project-desc'' [] [TextNode ds]]) ps articles"
    by auto
  have "render_projects i18n (entry # ps) = Inr (article # articles)"
    using a r by simp
  moreover have "\<exists>c cs d ds.
                   get_prop entry ''codename'' = Inr c \<and> to_string c = Inr cs
                   \<and> get_prop entry ''description'' = Inr d \<and> to_string d = Inr ds
                   \<and> by_class ''project-card'' article = [article]
                   \<and> by_class ''project-name'' article
                       = [Element ''h3'' ''project-name'' [] [TextNode cs]]
                   \<and> by_class ''project-desc'' article
                       = [Element ''p'' ''project-desc'' [] [TextNode ds]]"
    using f by blast
  ultimately show ?case using l by blast
qed

lemma build_tree_converted:
  assumes "getPath i18n ''site.title'' = Inr t" "\<not> is_nullish t" "to_string t = Inr ts"
    and "getPath i18n ''site.tagline'' = Inr g" "\<not> is_nullish g" "to_string g = Inr gs"
    and "getPath i18n ''sections.projects'' = Inr h" "\<not> is_nullish h" "to_string h = Inr hs"
    and "getPath i18n ''footer.copyright'' = Inr (JStr c)"
    and "get_prop i18n ''projects'' = Inr (JArr ps)"
    and "render_projects i18n ps = Inr articles"
  shows "build_tree i18n year =
           Inr (Element ''div'' ''container'' []
                  [Element ''header'' ''site-header'' []
                     [Element ''h1'' ''title'' [] (text_children ts),
                      Element ''p'' ''tagline'' [] (text_children gs)],
                   Element ''section'' ''projects'' []
                     [Element ''h2'' ''section-title'' [] (text_children hs),
                      Element ''div'' ''projects-grid'' [] articles],
                   Element ''footer'' ''site-footer'' []
                     [Element ''div'' [] []
                        (text_children (replace_first ''{year}'' (show_int (sint year)) c))]])"
  using assms by (simp add: build_tree_def el_text)

text \<open>
  C2, as the code has it. Take a document that passes validation, whose title, tagline
  and section heading convert to text, whose copyright is a string, and in which the
  \<^verbatim>\<open>url\<close> of every entry that has a truthy one converts to text together with the link
  label, on a page that has the mount point. Then \<open>render\<close> succeeds and the mounted tree
  holds exactly one card per entry of \<^verbatim>\<open>projects\<close>, in the order of the entries; the name
  element of the card at index \<open>i\<close> has a single child, the text node holding the text of
  the \<^verbatim>\<open>codename\<close> of entry \<open>i\<close> (for a string, the string itself), and likewise its
  description element.
\<close>

theorem render_cards:
  assumes "validateI18n doc = Inr ()"
    and "get_prop doc ''projects'' = Inr (JArr ps)"
    and "getPath doc ''site.title'' = Inr t" and "converts t"
    and "getPath doc ''site.tagline'' = Inr g" and "converts g"
    and "getPath doc ''sections.projects'' = Inr h" and "converts h"
    and "getPath doc ''footer.copyright'' = Inr (JStr c)"
    and "getPath doc ''labels.visit'' = Inr v"
    and "\<forall>entry \<in> set ps. \<forall>u.
           get_prop entry ''url'' = Inr u \<and> truthy u \<longrightarrow> converts u \<and> converts v"
    and "app_root w = Some m"
  shows "\<exists>w' m' tree.
           render doc year w = (Inr (), w')
           \<and> app_root w' = Some m' \<and> children m' = [tree]
           \<and> length (by_class ''project-card'' tree) = length ps
           \<and> (\<forall>i<length ps. \<exists>cn cs d ds.
                 get_prop (ps ! i) ''codename'' = Inr cn \<and> to_string cn = Inr cs
                 \<and> get_prop (ps ! i) ''description'' = Inr d \<and> to_string d = Inr ds
                 \<and> by_class ''project-name'' (by_class ''project-card'' tree ! i)
                     = [Element ''h3'' ''project-name'' [] [TextNode cs]]
                 \<and> by_class ''project-desc'' (by_class ''project-card'' tree ! i)
                     = [Element ''p'' ''project-desc'' [] [TextNode ds]])"
proof -
  let ?P = "\<lambda>entry article.
              \<exists>cn cs d ds.
                get_prop entry ''codename'' = Inr cn \<and> to_string cn = Inr cs
                \<and> get_prop entry ''description'' = Inr d \<and> to_string d = Inr ds
                \<and> by_class ''project-card'' article = [article]
                \<and> by_class ''project-name'' article
                    = [Element ''h3'' ''project-name'' [] [TextNode cs]]
                \<and> by_class ''project-desc'' article
                    = [Element ''p'' ''project-desc'' [] [TextNode ds]]"
  have ok: "\<forall>entry \<in> set ps. field_ok entry ''codename'' \<and> field_ok entry ''description''"
    using assms(1,2) by (rule validateI18n_okD)
  have present: "\<not> is_nullish t" "\<not> is_nullish g" "\<not> is_nullish h" "\<not> is_nullish v"
    using validateI18n_paths [OF assms(1), of "''site.title''"]
      validateI18n_paths [OF assms(1), of "''site.tagline''"]
      validateI18n_paths [OF assms(1), of "''sections.projects''"]
      validateI18n_paths [OF assms(1), of "''labels.visit''"]
      assms(3,5,7,10)
    by (auto simp: requiredPaths_def)
  from assms(4,6,8) obtain ts gs hs
    where conv: "to_string t = Inr ts" "to_string g = Inr gs" "to_string h = Inr hs"
    by (auto simp: converts_iff)
  from render_projects_cards [OF ok assms(11) assms(10) present(4)] obtain articles
    where r: "render_projects doc ps = Inr articles" and l: "list_all2 ?P ps articles"
    by blast
  let ?tree = "Element ''div'' ''container'' []
                  [Element ''header'' ''site-header'' []
                     [Element ''h1'' ''title'' [] (text_children ts),
                      Element ''p'' ''tagline'' [] (text_children gs)],
                   Element ''section'' ''projects'' []
                     [Element ''h2'' ''section-title'' [] (text_children hs),
                      Element ''div'' ''projects-grid'' [] articles],
                   Element ''footer'' ''site-footer'' []
                     [Element ''div'' [] []
                        (text_children (replace_first ''{year}'' (show_int (sint year)) c))]]"
  have b: "build_tree doc year = Inr ?tree"
    using assms(3) present(1) conv(1) assms(5) present(2) conv(2) assms(7) present(3) conv(3)
      assms(9) assms(2) r
    by (rule build_tree_converted)
  have len: "length articles = length ps"
    using l by (simp add: list_all2_lengthD)
  have each: "?P (ps ! i) (articles ! i)" if "i < length ps" for i
    using l that by (rule list_all2_nthD)
  have "\<forall>a \<in> set articles. by_class ''project-card'' a = [a]"
  proof
    fix a assume "a \<in> set articles"
    then obtain i where "i < length articles" "articles ! i = a"
      by (auto simp: in_set_conv_nth)
    with each [of i] len show "by_class ''project-card'' a = [a]" by auto
  qed
  then have "concat (map (by_class ''project-card'') articles) = articles"
    by (rule concat_map_singleton)
  then have cards: "by_class ''project-card'' ?tree = articles"
    by simp
  let ?m = "m\<lparr>children := [?tree],
              attributes := set_attribute ''aria-busy'' ''false'' (attributes m)\<rparr>"
  let ?w = "w\<lparr>doc_title := ts, app_root := Some ?m\<rparr>"
  have rw: "render doc year w = (Inr (), ?w)"
    using assms(3) conv(1) assms(12) b by (simp add: render_def)
  have "\<forall>i<length ps. \<exists>cn cs d ds.
                 get_prop (ps ! i) ''codename'' = Inr cn \<and> to_string cn = Inr cs
                 \<and> get_prop (ps ! i) ''description'' = Inr d \<and> to_string d = Inr ds
                 \<and> by_class ''project-name'' (by_class ''project-card'' ?tree ! i)
                     = [Element ''h3'' ''project-name'' [] [TextNode cs]]
                 \<and> by_class ''project-desc'' (by_class ''project-card'' ?tree ! i)
                     = [Element ''p'' ''project-desc'' [] [TextNode ds]]"
  proof (intro allI impI)
    fix i assume "i < length ps"
    from each [OF this] show "\<exists>cn cs d ds.
                 get_prop (ps ! i) ''codename'' = Inr cn \<and> to_string cn = Inr cs
                 \<and> get_prop (ps ! i) ''description'' = Inr d \<and> to_string d = Inr ds
                 \<and> by_class ''project-name'' (by_class ''project-card'' ?tree ! i)
                     = [Element ''h3'' ''project-name'' [] [TextNode cs]]
                 \<and> by_class ''project-desc'' (by_class ''project-card'' ?tree ! i)
                     = [Element ''p'' ''project-desc'' [] [TextNode ds]]"
      unfolding cards by blast
  qed
  moreover have "length (by_class ''project-card'' ?tree) = length ps"
    unfolding cards by (rule len)
  moreover have "app_root ?w = Some ?m \<and> children ?m = [?tree]"
    by simp
  ultimately show ?thesis using rw by blast
qed

text \<open>
  The sample document on the sample page: both cards are mounted. So are the cards of a
  document whose title is a number and whose entry has a \<^verbatim>\<open>null\<close> \<^verbatim>\<open>url\<close>.
\<close>

theorem render_cards_witness:
  "validateI18n sample_doc = Inr ()
   \<and> get_prop sample_doc ''projects'' = Inr (JArr [orbit_entry, kite_entry])
   \<and> getPath sample_doc ''site.title'' = Inr (JStr ''Capri Blue'')
   \<and> converts (JStr ''Capri Blue'')
   \<and> getPath sample_doc ''site.tagline'' = Inr (JStr ''Small tools'')
   \<and> converts (JStr ''Small tools'')
   \<and> getPath sample_doc ''sections.projects'' = Inr (JStr ''Projects'')
   \<and> converts (JStr ''Projects'')
   \<and> getPath sample_doc ''footer.copyright'' = Inr (JStr ''(c) {year} Acme'')
   \<and> getPath sample_doc ''labels.visit'' = Inr (JStr ''Visit'')
   \<and> converts (JStr ''Visit'')
   \<and> get_prop orbit_entry ''url'' = Inr (JStr ''https://x.test'')
   \<and> converts (JStr ''https://x.test'')
   \<and> get_prop kite_entry ''url'' = Inr JUndefined
   \<and> \<not> truthy JUndefined
   \<and> app_root sample_page = Some sample_mount
   \<and> (\<exists>w' m' tree.
         render sample_doc 2025 sample_page = (Inr (), w')
         \<and> app_root w' = Some m' \<and> children m' = [tree]
         \<and> length (by_class ''project-card'' tree) = length [orbit_entry, kite_entry]
         \<and> (\<forall>i<length [orbit_entry, kite_entry]. \<exists>cn cs d ds.
               get_prop ([orbit_entry, kite_entry] ! i) ''codename'' = Inr cn
               \<and> to_string cn = Inr cs
               \<and> get_prop ([orbit_entry, kite_entry] ! i) ''description'' = Inr d
               \<and> to_string d = Inr ds
               \<and> by_class ''project-name'' (by_class ''project-card'' tree ! i)
                   = [Element ''h3'' ''project-name'' [] [TextNode cs]]
               \<and> by_class ''project-desc'' (by_class ''project-card'' tree ! i)
                   = [Element ''p'' ''project-desc'' [] [TextNode ds]]))
   \<and> validateI18n
        (sample_with (JNum 7) (JBool True) (JArr [JStr ''P'']) (JStr ''Visit'') (JStr ''C'')
           [JObj [(''codename'', JNum 42), (''description'', JStr ''A tool''),
                  (''url'', JNull)]]) = Inr ()
   \<and> (\<exists>w' m' tree.
         render
           (sample_with (JNum 7) (JBool True) (JArr [JStr ''P'']) (JStr ''Visit'') (JStr ''C'')
              [JObj [(''codename'', JNum 42), (''description'', JStr ''A tool''),
                     (''url'', JNull)]]) 2025 sample_page = (Inr (), w')
         \<and> app_root w' = Some m' \<and> children m' = [tree]
         \<and> map (by_class ''project-name'') (by_class ''project-card'' tree)
             = [[Element ''h3'' ''project-name'' [] [TextNode ''42'']]])"
proof -
  have h1: "validateI18n sample_doc = Inr ()"
    by (simp add: validateI18n_def requiredPaths_def getPath_def get_prop_def methods_def
        trim_def is_space_def)
  have h2: "get_prop sample_doc ''projects'' = Inr (JArr [orbit_entry, kite_entry])"
    by (simp add: get_prop_def)
  have h3: "getPath sample_doc ''site.title'' = Inr (JStr ''Capri Blue'')"
    by (simp add: getPath_def get_prop_def)
  have h4: "getPath sample_doc ''site.tagline'' = Inr (JStr ''Small tools'')"
    by (simp add: getPath_def get_prop_def)
  have h5: "getPath sample_doc ''sections.projects'' = Inr (JStr ''Projects'')"
    by (simp add: getPath_def get_prop_def)
  have h6: "getPath sample_doc ''labels.visit'' = Inr (JStr ''Visit'')"
    by (simp add: getPath_def get_prop_def)
  have h7: "getPath sample_doc ''footer.copyright'' = Inr (JStr ''(c) {year} Acme'')"
    by (simp add: getPath_def get_prop_def)
  have cv: "converts (JStr s)" for s
    by (simp add: converts_def)
  have u1: "get_prop orbit_entry ''url'' = Inr (JStr ''https://x.test'')"
    by (simp add: get_prop_def)
  have u2: "get_prop kite_entry ''url'' = Inr JUndefined"
    by (simp add: get_prop_def methods_def)
  have h8: "\<forall>entry \<in> set [orbit_entry, kite_entry]. \<forall>u.
              get_prop entry ''url'' = Inr u \<and> truthy u
              \<longrightarrow> converts u \<and> converts (JStr ''Visit'')"
    using u1 u2 by (simp add: cv)
  have h9: "app_root sample_page = Some sample_mount"
    by simp
  let ?doc = "sample_with (JNum 7) (JBool True) (JArr [JStr ''P'']) (JStr ''Visit'') (JStr ''C'')
           [JObj [(''codename'', JNum 42), (''description'', JStr ''A tool''),
                  (''url'', JNull)]]"
  have n: "show_nat 42 = ''42''" "show_nat 7 = ''7''"
    by (simp_all add: show_nat.simps)
  have k1: "validateI18n ?doc = Inr ()"
    by (simp add: validateI18n_def requiredPaths_def getPath_def get_prop_def methods_def
        trim_def is_space_def show_int_def n)
  have k2: "get_prop ?doc ''projects''
              = Inr (JArr [JObj [(''codename'', JNum 42), (''description'', JStr ''A tool''),
                                 (''url'', JNull)]])"
    by (simp add: get_prop_def)
  have k3: "getPath ?doc ''site.title'' = Inr (JNum 7)"
    by (simp add: getPath_def get_prop_def)
  have k4: "getPath ?doc ''site.tagline'' = Inr (JBool True)"
    by (simp add: getPath_def get_prop_def)
  have k5: "getPath ?doc ''sections.projects'' = Inr (JArr [JStr ''P''])"
    by (simp add: getPath_def get_prop_def)
  have k6: "getPath ?doc ''labels.visit'' = Inr (JStr ''Visit'')"
    by (simp add: getPath_def get_prop_def)
  have k7: "getPath ?doc ''footer.copyright'' = Inr (JStr ''C'')"
    by (simp add: getPath_def get_prop_def)
  have kc: "converts (JNum 7)" "converts (JBool True)" "converts (JArr [JStr ''P''])"
    by (simp_all add: converts_def)
  have k8: "\<forall>entry \<in> set [JObj [(''codename'', JNum 42), (''description'', JStr ''A tool''),
                                  (''url'', JNull)]]. \<forall>u.
              get_prop entry ''url'' = Inr u \<and> truthy u
              \<longrightarrow> converts u \<and> converts (JStr ''Visit'')"
    by (simp add: get_prop_def)
  from render_cards [OF k1 k2 k3 kc(1) k4 kc(2) k5 kc(3) k7 k6 k8 h9, of 2025]
  obtain w' m' tree
    where r: "render ?doc 2025 sample_page = (Inr (), w')" "app_root w' = Some m'"
        "children m' = [tree]"
      and len: "length (by_class ''project-card'' tree) = 1"
      and nm: "\<exists>cn cs. get_prop (JObj [(''codename'', JNum 42),
                    (''description'', JStr ''A tool''), (''url'', JNull)]) ''codename'' = Inr cn
                  \<and> to_string cn = Inr cs
                  \<and> by_class ''project-name'' (by_class ''project-card'' tree ! 0)
                      = [Element ''h3'' ''project-name'' [] [TextNode cs]]"
    by auto
  from nm have "by_class ''project-name'' (by_class ''project-card'' tree ! 0)
                  = [Element ''h3'' ''project-name'' [] [TextNode ''42'']]"
    by (auto simp: get_prop_def show_int_def n)
  with len have "map (by_class ''project-name'') (by_class ''project-card'' tree)
             = [[Element ''h3'' ''project-name'' [] [TextNode ''42'']]]"
    by (cases "by_class ''project-card'' tree") auto
  with r have second: "\<exists>w' m' tree.
         render ?doc 2025 sample_page = (Inr (), w')
         \<and> app_root w' = Some m' \<and> children m' = [tree]
         \<and> map (by_class ''project-name'') (by_class ''project-card'' tree)
             = [[Element ''h3'' ''project-name'' [] [TextNode ''42'']]]"
    by (intro exI [of _ w'] exI [of _ m'] exI [of _ tree]) simp
  from render_cards [OF h1 h2 h3 cv h4 cv h5 cv h7 h6 h8 h9, of 2025]
    h1 h2 h3 h4 h5 h6 h7 u1 u2 h9 cv k1 second
  show ?thesis by simp
qed

text \<open>
  C2 as worded fails on validated documents with two entries each. With a number as
  copyright, \<open>render\<close> throws at \<^verbatim>\<open>copyrightTmpl.replace\<close>, after the title was assigned and
  before anything was mounted. With an object that has a member \<^verbatim>\<open>toString\<close> as title, as
  tagline, as section heading, as link label or as the \<^verbatim>\<open>url\<close> of an entry, the conversion of
  that value to text throws. On a page without the mount point the last step throws. In
  each case the mount point, where there is one, still holds its text and no card.
\<close>

theorem render_cards_counterexample:
  "validateI18n numeric_doc = Inr ()
   \<and> get_prop numeric_doc ''projects'' = Inr (JArr [orbit_entry, kite_entry])
   \<and> length [orbit_entry, kite_entry] = 2
   \<and> render numeric_doc 2025 sample_page
       = (Inl TypeError,
          \<lparr>doc_title = ''Capri Blue'', app_root = Some sample_mount, console = [],
           requests = []\<rparr>)
   \<and> concat (map (by_class ''project-card'') (children sample_mount)) = []
   \<and> validateI18n
        (sample_with unprintable (JStr ''G'') (JStr ''P'') (JStr ''Visit'') (JStr ''C'')
           [orbit_entry, kite_entry]) = Inr ()
   \<and> render
        (sample_with unprintable (JStr ''G'') (JStr ''P'') (JStr ''Visit'') (JStr ''C'')
           [orbit_entry, kite_entry]) 2025 sample_page = (Inl TypeError, sample_page)
   \<and> validateI18n
        (sample_with (JStr ''T'') unprintable (JStr ''P'') (JStr ''Visit'') (JStr ''C'')
           [orbit_entry, kite_entry]) = Inr ()
   \<and> fst (render
        (sample_with (JStr ''T'') unprintable (JStr ''P'') (JStr ''Visit'') (JStr ''C'')
           [orbit_entry, kite_entry]) 2025 sample_page) = Inl TypeError
   \<and> validateI18n
        (sample_with (JStr ''T'') (JStr ''G'') unprintable (JStr ''Visit'') (JStr ''C'')
           [orbit_entry, kite_entry]) = Inr ()
   \<and> fst (render
        (sample_with (JStr ''T'') (JStr ''G'') unprintable (JStr ''Visit'') (JStr ''C'')
           [orbit_entry, kite_entry]) 2025 sample_page) = Inl TypeError
   \<and> validateI18n
        (sample_with (JStr ''T'') (JStr ''G'') (JStr ''P'') unprintable (JStr ''C'')
           [orbit_entry, kite_entry]) = Inr ()
   \<and> fst (render
        (sample_with (JStr ''T'') (JStr ''G'') (JStr ''P'') unprintable (JStr ''C'')
           [orbit_entry, kite_entry]) 2025 sample_page) = Inl TypeError
   \<and> validateI18n
        (sample_with (JStr ''T'') (JStr ''G'') (JStr ''P'') (JStr ''Visit'') (JStr ''C'')
           [kite_entry,
            JObj [(''codename'', JStr ''Orbit''), (''description'', JStr ''A tool''),
                  (''url'', unprintable)]]) = Inr ()
   \<and> fst (render
        (sample_with (JStr ''T'') (JStr ''G'') (JStr ''P'') (JStr ''Visit'') (JStr ''C'')
           [kite_entry,
            JObj [(''codename'', JStr ''Orbit''), (''description'', JStr ''A tool''),
                  (''url'', unprintable)]]) 2025 sample_page) = Inl TypeError
   \<and> render sample_doc 2025
         \<lparr>doc_title = ''Loading'', app_root = None, console = [], requests = []\<rparr>
       = (Inl TypeError,
          \<lparr>doc_title = ''Capri Blue'', app_root = None, console = [], requests = []\<rparr>)"
proof -
  have v: "validateI18n (sample_with t g h l c ps) = Inr ()"
    if "\<not> is_nullish t" "\<not> is_nullish g" "\<not> is_nullish h" "\<not> is_nullish l"
      "\<not> is_nullish c" "check_projects 0 ps = Inr ()" for t g h l c ps
    using that
    by (simp add: validateI18n_def requiredPaths_def getPath_def get_prop_def methods_def)
  have e: "check_projects 0 [orbit_entry, kite_entry] = Inr ()"
    by (simp add: get_prop_def trim_def is_space_def)
  have e2: "check_projects 0 [kite_entry,
              JObj [(''codename'', JStr ''Orbit''), (''description'', JStr ''A tool''),
                    (''url'', unprintable)]] = Inr ()"
    by (simp add: get_prop_def trim_def is_space_def)
  have orbit: "render_project (sample_with t g h (JStr ''Visit'') c ps) orbit_entry =
             Inr (Element ''article'' ''project-card'' []
                    [Element ''h3'' ''project-name'' [] [TextNode ''Orbit''],
                     Element ''p'' ''project-desc'' [] [TextNode ''A tool''],
                     Element ''div'' ''project-actions'' []
                       [Element ''a'' ''button-link''
                          [(''href'', ''https://x.test''), (''target'', ''_blank''),
                           (''rel'', ''noopener noreferrer''), (''aria-label'', ''Visit: Orbit'')]
                          [TextNode ''Visit'']]])" for t g h c ps
    by (simp add: render_project_def el_def getPath_def get_prop_def text_children_def)
  have orbit_bad: "render_project (sample_with t g h unprintable c ps) orbit_entry
                     = Inl TypeError" for t g h c ps
    by (simp add: render_project_def el_def getPath_def get_prop_def text_children_def)
  have kite: "render_project doc kite_entry =
             Inr (Element ''article'' ''project-card'' []
                    [Element ''h3'' ''project-name'' [] [TextNode ''Kite''],
                     Element ''p'' ''project-desc'' [] [TextNode ''A toy'']])" for doc
    by (simp add: render_project_def el_def get_prop_def methods_def text_children_def)
  have bad_url: "render_project (sample_with t g h (JStr ''Visit'') c ps)
                   (JObj [(''codename'', JStr ''Orbit''), (''description'', JStr ''A tool''),
                          (''url'', unprintable)]) = Inl TypeError" for t g h c ps
    by (simp add: render_project_def el_def getPath_def get_prop_def text_children_def)
  have paths: "getPath (sample_with t g h l c ps) ''site.title'' = Inr t"
    "getPath (sample_with t g h l c ps) ''site.tagline'' = Inr g"
    "getPath (sample_with t g h l c ps) ''sections.projects'' = Inr h"
    "getPath (sample_with t g h l c ps) ''footer.copyright'' = Inr c"
    "get_prop (sample_with t g h l c ps) ''projects'' = Inr (JArr ps)"
    if "\<not> is_nullish t" "\<not> is_nullish g" "\<not> is_nullish h" "\<not> is_nullish l"
      "\<not> is_nullish c" for t g h l c ps
    using that by (simp_all add: getPath_def get_prop_def)
  have c1: "render numeric_doc 2025 sample_page
       = (Inl TypeError,
          \<lparr>doc_title = ''Capri Blue'', app_root = Some sample_mount, console = [],
           requests = []\<rparr>)"
    by (simp add: render_def build_tree_def paths orbit kite el_def text_children_def)
  have c2: "render
        (sample_with unprintable (JStr ''G'') (JStr ''P'') (JStr ''Visit'') (JStr ''C'')
           [orbit_entry, kite_entry]) 2025 sample_page = (Inl TypeError, sample_page)"
    by (simp add: render_def paths)
  have c3: "fst (render
        (sample_with (JStr ''T'') unprintable (JStr ''P'') (JStr ''Visit'') (JStr ''C'')
           [orbit_entry, kite_entry]) 2025 sample_page) = Inl TypeError"
    by (simp add: render_def build_tree_def paths el_def text_children_def)
  have c4: "fst (render
        (sample_with (JStr ''T'') (JStr ''G'') unprintable (JStr ''Visit'') (JStr ''C'')
           [orbit_entry, kite_entry]) 2025 sample_page) = Inl TypeError"
    by (simp add: render_def build_tree_def paths el_def text_children_def)
  have c5: "fst (render
        (sample_with (JStr ''T'') (JStr ''G'') (JStr ''P'') unprintable (JStr ''C'')
           [orbit_entry, kite_entry]) 2025 sample_page) = Inl TypeError"
    by (simp add: render_def build_tree_def paths orbit_bad el_def text_children_def)
  have c6: "fst (render
        (sample_with (JStr ''T'') (JStr ''G'') (JStr ''P'') (JStr ''Visit'') (JStr ''C'')
           [kite_entry,
            JObj [(''codename'', JStr ''Orbit''), (''description'', JStr ''A tool''),
                  (''url'', unprintable)]]) 2025 sample_page) = Inl TypeError"
    by (simp add: render_def build_tree_def paths kite bad_url el_def text_children_def)
  have y: "show_int (sint (2025 :: 54 word)) = ''2025''"
    by (simp add: show_int_def show_nat.simps)
  have c7: "render sample_doc 2025
         \<lparr>doc_title = ''Loading'', app_root = None, console = [], requests = []\<rparr>
       = (Inl TypeError,
          \<lparr>doc_title = ''Capri Blue'', app_root = None, console = [], requests = []\<rparr>)"
    by (simp add: render_def build_tree_def paths orbit kite el_def text_children_def y)
  have g: "get_prop numeric_doc ''projects'' = Inr (JArr [orbit_entry, kite_entry])"
    by (simp add: get_prop_def)
  from v [OF _ _ _ _ _ e] v [OF _ _ _ _ _ e2] g c1 c2 c3 c4 c5 c6 c7
  show ?thesis by simp
qed

section \<open>Properties of the bootstrap sequence\<close>

lemma loadI18n_page:
  "loadI18n config fetch language w = (res, w')
    \<Longrightarrow> app_root w' = app_root w \<and> console w' = console w \<and> doc_title w' = doc_title w"
  by (auto simp: loadI18n_def Let_def split: sum.splits if_splits)

lemma render_failure_page:
  "render i18n year w = (Inl e, w')
    \<Longrightarrow> app_root w' = app_root w \<and> console w' = console w \<and> requests w' = requests w"
  by (auto simp: render_def Let_def split: sum.splits option.splits)

lemma render_failure_title:
  assumes "render i18n year w = (Inl e, w')" and "getPath i18n ''site.title'' = Inr t"
  shows "case to_string t of
           Inl e' \<Rightarrow> e = e' \<and> doc_title w' = doc_title w
         | Inr s \<Rightarrow> doc_title w' = s"
  using assms by (auto simp: render_def Let_def split: sum.splits option.splits)

lemma pipeline_failure_stage:
  assumes "pipeline b w = (Inl e, w')"
  shows "\<exists>language.
           getLanguage (location_search b) (app_config b) = Inr language
           \<and> (loadI18n (app_config b) (network b) language w = (Inl e, w')
               \<or> (\<exists>i18n w1.
                     loadI18n (app_config b) (network b) language w = (Inr i18n, w1)
                     \<and> (validateI18n i18n = Inl e \<and> w' = w1
                         \<or> validateI18n i18n = Inr ()
                             \<and> render i18n (current_year b) w1 = (Inl e, w'))))"
proof -
  obtain language where l: "getLanguage (location_search b) (app_config b) = Inr language"
    using getLanguage_total by blast
  obtain res w1 where ld: "loadI18n (app_config b) (network b) language w = (res, w1)"
    by (cases "loadI18n (app_config b) (network b) language w") auto
  show ?thesis
  proof (cases res)
    case (Inl e1)
    with assms l ld show ?thesis by (simp add: pipeline_def)
  next
    case (Inr i18n)
    show ?thesis
    proof (cases "validateI18n i18n")
      case (Inl e2)
      with assms l ld Inr show ?thesis by (simp add: pipeline_def)
    next
      case v: (Inr u)
      with assms l ld Inr show ?thesis by (simp add: pipeline_def)
    qed
  qed
qed

text \<open>
  C3, as the code has it. When a run of the pipeline fails, whether while loading,
  validating or rendering, the mount point is afterwards what it was before the run,
  children and attributes (so its busy attribute is not cleared), and \<^verbatim>\<open>console.error\<close>
  has received one more entry: the very error the failing stage threw. A failure while
  loading or validating leaves the document title as it was. A failure inside \<open>render\<close>
  leaves the title as it was only when the error is that of converting \<^verbatim>\<open>site.title\<close> to
  text; every later failure of \<open>render\<close> leaves the document title set to the text of
  \<^verbatim>\<open>site.title\<close>.
\<close>

theorem bootstrap_failure:
  assumes "pipeline b w = (Inl e, w')"
  shows "app_root (bootstrap b w) = app_root w
         \<and> console (bootstrap b w) = console w @ [e]
         \<and> (\<exists>language.
               getLanguage (location_search b) (app_config b) = Inr language
               \<and> (fst (loadI18n (app_config b) (network b) language w) = Inl e
                     \<and> doc_title (bootstrap b w) = doc_title w
                   \<or> (\<exists>i18n w1.
                         loadI18n (app_config b) (network b) language w = (Inr i18n, w1)
                         \<and> (validateI18n i18n = Inl e
                               \<and> doc_title (bootstrap b w) = doc_title w
                             \<or> validateI18n i18n = Inr ()
                                 \<and> fst (render i18n (current_year b) w1) = Inl e
                                 \<and> (\<exists>t. getPath i18n ''site.title'' = Inr t
                                       \<and> (case to_string t of
                                             Inl e' \<Rightarrow>
                                               e = e' \<and> doc_title (bootstrap b w) = doc_title w
                                           | Inr s \<Rightarrow> doc_title (bootstrap b w) = s))))))"
proof -
  have bs: "bootstrap b w = w'\<lparr>console := console w' @ [e]\<rparr>"
    using assms by (simp add: bootstrap_def)
  from pipeline_failure_stage [OF assms] obtain language
    where l: "getLanguage (location_search b) (app_config b) = Inr language"
      and st: "loadI18n (app_config b) (network b) language w = (Inl e, w')
               \<or> (\<exists>i18n w1.
                     loadI18n (app_config b) (network b) language w = (Inr i18n, w1)
                     \<and> (validateI18n i18n = Inl e \<and> w' = w1
                         \<or> validateI18n i18n = Inr ()
                             \<and> render i18n (current_year b) w1 = (Inl e, w')))"
    by blast
  from st show ?thesis
  proof (elim disjE exE conjE)
    assume a: "loadI18n (app_config b) (network b) language w = (Inl e, w')"
    from loadI18n_page [OF a] a l bs show ?thesis by auto
  next
    fix i18n w1
    assume a: "loadI18n (app_config b) (network b) language w = (Inr i18n, w1)"
      and v: "validateI18n i18n = Inl e" and w: "w' = w1"
    from loadI18n_page [OF a] a l bs v w show ?thesis by auto
  next
    fix i18n w1
    assume a: "loadI18n (app_config b) (network b) language w = (Inr i18n, w1)"
      and v: "validateI18n i18n = Inr ()"
      and r: "render i18n (current_year b) w1 = (Inl e, w')"
    from validateI18n_paths [OF v, of "''site.title''"] obtain t
      where t: "getPath i18n ''site.title'' = Inr t"
      by (auto simp: requiredPaths_def)
    from loadI18n_page [OF a] have same: "doc_title w1 = doc_title w"
      by simp
    from render_failure_title [OF r t] same bs
    have title: "case to_string t of
                   Inl e' \<Rightarrow> e = e' \<and> doc_title (bootstrap b w) = doc_title w
                 | Inr s \<Rightarrow> doc_title (bootstrap b w) = s"
      by (simp split: sum.splits)
    have page: "app_root (bootstrap b w) = app_root w"
      "console (bootstrap b w) = console w @ [e]"
      using loadI18n_page [OF a] render_failure_page [OF r] bs by simp_all
    from r have "fst (render i18n (current_year b) w1) = Inl e"
      by simp
    with page l a v t title show ?thesis
      by blast
  qed
qed

text \<open>
  Four failing runs on the sample page. The first requests \<^verbatim>\<open>i18n/fr.json\<close> and gets a 404.
  The second receives an empty document, which validation refuses. The third receives a
  document whose title cannot be converted to text, so that \<open>render\<close> fails at its first
  statement. The fourth receives the document whose copyright is a number, which passes
  validation and fails in \<open>render\<close> after the title was assigned. All leave the mount
  point with its text and its busy attribute, and the console with the one error.
\<close>

theorem bootstrap_failure_witness:
  "pipeline \<lparr>location_search = Inr [(''lang'', ''fr'')], app_config = JUndefined,
             network = (\<lambda>u. Inr \<lparr>ok = False, status = 404, json = Inl SyntaxError\<rparr>),
             current_year = 2025\<rparr> sample_page
     = (Inl (Error ''Failed to load i18n resource: i18n/fr.json (404)''),
        \<lparr>doc_title = ''Loading'', app_root = Some sample_mount, console = [],
         requests = [''i18n/fr.json'']\<rparr>)
   \<and> bootstrap \<lparr>location_search = Inr [(''lang'', ''fr'')], app_config = JUndefined,
             network = (\<lambda>u. Inr \<lparr>ok = False, status = 404, json = Inl SyntaxError\<rparr>),
             current_year = 2025\<rparr> sample_page
       = \<lparr>doc_title = ''Loading'', app_root = Some sample_mount,
          console = [Error ''Failed to load i18n resource: i18n/fr.json (404)''],
          requests = [''i18n/fr.json'']\<rparr>
   \<and> pipeline \<lparr>location_search = Inl SyntaxError, app_config = JUndefined,
               network = (\<lambda>u. Inr \<lparr>ok = True, status = 200, json = Inr (JObj [])\<rparr>),
               current_year = 2025\<rparr> sample_page
       = (Inl (Error ''Missing i18n key: site.title''),
          \<lparr>doc_title = ''Loading'', app_root = Some sample_mount, console = [],
           requests = [''i18n/en.json'']\<rparr>)
   \<and> bootstrap \<lparr>location_search = Inl SyntaxError, app_config = JUndefined,
               network = (\<lambda>u. Inr \<lparr>ok = True, status = 200, json = Inr (JObj [])\<rparr>),
               current_year = 2025\<rparr> sample_page
       = \<lparr>doc_title = ''Loading'', app_root = Some sample_mount,
          console = [Error ''Missing i18n key: site.title''],
          requests = [''i18n/en.json'']\<rparr>
   \<and> pipeline \<lparr>location_search = Inl SyntaxError, app_config = JUndefined,
               network = (\<lambda>u. Inr \<lparr>ok = True, status = 200,
                  json = Inr (sample_with unprintable (JStr ''G'') (JStr ''P'') (JStr ''Visit'')
                            (JStr ''C'') [])\<rparr>),
               current_year = 2025\<rparr> sample_page
       = (Inl TypeError,
          \<lparr>doc_title = ''Loading'', app_root = Some sample_mount, console = [],
           requests = [''i18n/en.json'']\<rparr>)
   \<and> bootstrap \<lparr>location_search = Inl SyntaxError, app_config = JUndefined,
               network = (\<lambda>u. Inr \<lparr>ok = True, status = 200,
                  json = Inr (sample_with unprintable (JStr ''G'') (JStr ''P'') (JStr ''Visit'')
                            (JStr ''C'') [])\<rparr>),
               current_year = 2025\<rparr> sample_page
       = \<lparr>doc_title = ''Loading'', app_root = Some sample_mount, console = [TypeError],
          requests = [''i18n/en.json'']\<rparr>
   \<and> pipeline \<lparr>location_search = Inl SyntaxError, app_config = JUndefined,
               network = (\<lambda>u. Inr \<lparr>ok = True, status = 200, json = Inr numeric_doc\<rparr>),
               current_year = 2025\<rparr> sample_page
       = (Inl TypeError,
          \<lparr>doc_title = ''Capri Blue'', app_root = Some sample_mount, console = [],
           requests = [''i18n/en.json'']\<rparr>)
   \<and> bootstrap \<lparr>location_search = Inl SyntaxError, app_config = JUndefined,
               network = (\<lambda>u. Inr \<lparr>ok = True, status = 200, json = Inr numeric_doc\<rparr>),
               current_year = 2025\<rparr> sample_page
       = \<lparr>doc_title = ''Capri Blue'', app_root = Some sample_mount, console = [TypeError],
          requests = [''i18n/en.json'']\<rparr>"
proof -
  let ?b1 = "\<lparr>location_search = Inr [(''lang'', ''fr'')], app_config = JUndefined,
             network = (\<lambda>u. Inr \<lparr>ok = False, status = 404, json = Inl SyntaxError\<rparr>),
             current_year = 2025\<rparr>"
  let ?b2 = "\<lparr>location_search = Inl SyntaxError, app_config = JUndefined,
               network = (\<lambda>u. Inr \<lparr>ok = True, status = 200, json = Inr (JObj [])\<rparr>),
               current_year = 2025\<rparr>"
  let ?b3 = "\<lparr>location_search = Inl SyntaxError, app_config = JUndefined,
               network = (\<lambda>u. Inr \<lparr>ok = True, status = 200,
                  json = Inr (sample_with unprintable (JStr ''G'') (JStr ''P'') (JStr ''Visit'')
                            (JStr ''C'') [])\<rparr>),
               current_year = 2025\<rparr>"
  let ?b4 = "\<lparr>location_search = Inl SyntaxError, app_config = JUndefined,
               network = (\<lambda>u. Inr \<lparr>ok = True, status = 200, json = Inr numeric_doc\<rparr>),
               current_year = 2025\<rparr>"
  let ?loaded = "\<lparr>doc_title = ''Loading'', app_root = Some sample_mount, console = [],
              requests = [''i18n/en.json'']\<rparr>"
  have n: "show_nat 404 = ''404''"
    by (simp add: show_nat.simps)
  have l1: "getLanguage (Inr [(''lang'', ''fr'')]) JUndefined = Inr (JStr ''fr'')"
    by (simp add: getLanguage_def lang_candidate_def params_get_def trim_def is_space_def)
  have l2: "getLanguage (Inl SyntaxError) JUndefined = Inr (JStr ''en'')"
    by (simp add: getLanguage_def default_language_def configured_def or_else_def)
  have ld: "loadI18n JUndefined (\<lambda>u. Inr \<lparr>ok = True, status = 200, json = Inr d\<rparr>)
              (JStr ''en'') sample_page = (Inr d, ?loaded)" for d
    by (simp add: loadI18n_def configured_def or_else_def
        encodeURIComponent_def encode_unit_def unreserved_def)
  have p1: "pipeline ?b1 sample_page
     = (Inl (Error ''Failed to load i18n resource: i18n/fr.json (404)''),
        \<lparr>doc_title = ''Loading'', app_root = Some sample_mount, console = [],
         requests = [''i18n/fr.json'']\<rparr>)"
    by (simp add: pipeline_def l1 loadI18n_def configured_def or_else_def
        encodeURIComponent_def encode_unit_def unreserved_def ResourceUnavailable_def n)
  have v2: "validateI18n (JObj []) = Inl (Error ''Missing i18n key: site.title'')"
    by (simp add: validateI18n_def requiredPaths_def getPath_def get_prop_def methods_def
        MissingKey_def)
  have p2: "pipeline ?b2 sample_page
              = (Inl (Error ''Missing i18n key: site.title''), ?loaded)"
    by (simp add: pipeline_def l2 ld v2)
  have v3: "validateI18n (sample_with unprintable (JStr ''G'') (JStr ''P'') (JStr ''Visit'')
                            (JStr ''C'') []) = Inr ()"
    by (simp add: validateI18n_def requiredPaths_def getPath_def get_prop_def methods_def)
  have r3: "render (sample_with unprintable (JStr ''G'') (JStr ''P'') (JStr ''Visit'')
                            (JStr ''C'') []) 2025 ?loaded = (Inl TypeError, ?loaded)"
    by (simp add: render_def getPath_def get_prop_def)
  have p3: "pipeline ?b3 sample_page = (Inl TypeError, ?loaded)"
    by (simp add: pipeline_def l2 ld v3 r3)
  have v4: "validateI18n numeric_doc = Inr ()"
    by (simp add: validateI18n_def requiredPaths_def getPath_def get_prop_def methods_def
        trim_def is_space_def)
  have a: "render_project numeric_doc orbit_entry =
             Inr (Element ''article'' ''project-card'' []
                    [Element ''h3'' ''project-name'' [] [TextNode ''Orbit''],
                     Element ''p'' ''project-desc'' [] [TextNode ''A tool''],
                     Element ''div'' ''project-actions'' []
                       [Element ''a'' ''button-link''
                          [(''href'', ''https://x.test''), (''target'', ''_blank''),
                           (''rel'', ''noopener noreferrer''), (''aria-label'', ''Visit: Orbit'')]
                          [TextNode ''Visit'']]])"
    by (simp add: render_project_def el_def getPath_def get_prop_def text_children_def)
  have c: "render_project numeric_doc kite_entry =
             Inr (Element ''article'' ''project-card'' []
                    [Element ''h3'' ''project-name'' [] [TextNode ''Kite''],
                     Element ''p'' ''project-desc'' [] [TextNode ''A toy'']])"
    by (simp add: render_project_def el_def get_prop_def methods_def text_children_def)
  have t: "build_tree numeric_doc 2025 = Inl TypeError"
    by (simp add: build_tree_def el_def getPath_def get_prop_def text_children_def a c)
  have r4: "render numeric_doc 2025 ?loaded
           = (Inl TypeError,
              \<lparr>doc_title = ''Capri Blue'', app_root = Some sample_mount, console = [],
               requests = [''i18n/en.json'']\<rparr>)"
    by (simp add: render_def t getPath_def get_prop_def)
  have p4: "pipeline ?b4 sample_page
       = (Inl TypeError,
          \<lparr>doc_title = ''Capri Blue'', app_root = Some sample_mount, console = [],
           requests = [''i18n/en.json'']\<rparr>)"
    by (simp add: pipeline_def l2 ld v4 r4)
  have b: "bootstrap ?b1 sample_page
       = \<lparr>doc_title = ''Loading'', app_root = Some sample_mount,
          console = [Error ''Failed to load i18n resource: i18n/fr.json (404)''],
          requests = [''i18n/fr.json'']\<rparr>"
    "bootstrap ?b2 sample_page
       = \<lparr>doc_title = ''Loading'', app_root = Some sample_mount,
          console = [Error ''Missing i18n key: site.title''],
          requests = [''i18n/en.json'']\<rparr>"
    "bootstrap ?b3 sample_page
       = \<lparr>doc_title = ''Loading'', app_root = Some sample_mount, console = [TypeError],
          requests = [''i18n/en.json'']\<rparr>"
    "bootstrap ?b4 sample_page
       = \<lparr>doc_title = ''Capri Blue'', app_root = Some sample_mount, console = [TypeError],
          requests = [''i18n/en.json'']\<rparr>"
    using bootstrap_failure [OF p1] bootstrap_failure [OF p2] bootstrap_failure [OF p3]
      bootstrap_failure [OF p4]
    by (simp_all add: bootstrap_def p1 p2 p3 p4)
  from p1 p2 p3 p4 b show ?thesis
    by simp
qed

text \<open>
  C3 as worded promises a page in its state from before the run and no partial rendering.
  The run that receives the document whose copyright is a number fails in \<open>render\<close>, and
  the document title, \<^verbatim>\<open>Loading\<close> before the run, is \<^verbatim>\<open>Capri Blue\<close> after it.
\<close>

theorem bootstrap_failure_counterexample:
  "fst (pipeline \<lparr>location_search = Inl SyntaxError, app_config = JUndefined,
               network = (\<lambda>u. Inr \<lparr>ok = True, status = 200, json = Inr numeric_doc\<rparr>),
               current_year = 2025\<rparr> sample_page) = Inl TypeError
   \<and> doc_title sample_page = ''Loading''
   \<and> doc_title (bootstrap \<lparr>location_search = Inl SyntaxError, app_config = JUndefined,
               network = (\<lambda>u. Inr \<lparr>ok = True, status = 200, json = Inr numeric_doc\<rparr>),
               current_year = 2025\<rparr> sample_page) = ''Capri Blue''
   \<and> doc_title (bootstrap \<lparr>location_search = Inl SyntaxError, app_config = JUndefined,
               network = (\<lambda>u. Inr \<lparr>ok = True, status = 200, json = Inr numeric_doc\<rparr>),
               current_year = 2025\<rparr> sample_page) \<noteq> doc_title sample_page"
proof -
  let ?b = "\<lparr>location_search = Inl SyntaxError, app_config = JUndefined,
               network = (\<lambda>u. Inr \<lparr>ok = True, status = 200, json = Inr numeric_doc\<rparr>),
               current_year = 2025\<rparr>"
  let ?loaded = "\<lparr>doc_title = ''Loading'', app_root = Some sample_mount, console = [],
              requests = [''i18n/en.json'']\<rparr>"
  have l: "getLanguage (Inl SyntaxError) JUndefined = Inr (JStr ''en'')"
    by (simp add: getLanguage_def default_language_def configured_def or_else_def)
  have ld: "loadI18n JUndefined (\<lambda>u. Inr \<lparr>ok = True, status = 200, json = Inr numeric_doc\<rparr>)
              (JStr ''en'') sample_page = (Inr numeric_doc, ?loaded)"
    by (simp add: loadI18n_def configured_def or_else_def
        encodeURIComponent_def encode_unit_def unreserved_def)
  have v: "validateI18n numeric_doc = Inr ()"
    by (simp add: validateI18n_def requiredPaths_def getPath_def get_prop_def methods_def
        trim_def is_space_def)
  have a: "render_project numeric_doc orbit_entry =
             Inr (Element ''article'' ''project-card'' []
                    [Element ''h3'' ''project-name'' [] [TextNode ''Orbit''],
                     Element ''p'' ''project-desc'' [] [TextNode ''A tool''],
                     Element ''div'' ''project-actions'' []
                       [Element ''a'' ''button-link''
                          [(''href'', ''https://x.test''), (''target'', ''_blank''),
                           (''rel'', ''noopener noreferrer''), (''aria-label'', ''Visit: Orbit'')]
                          [TextNode ''Visit'']]])"
    by (simp add: render_project_def el_def getPath_def get_prop_def text_children_def)
  have c: "render_project numeric_doc kite_entry =
             Inr (Element ''article'' ''project-card'' []
                    [Element ''h3'' ''project-name'' [] [TextNode ''Kite''],
                     Element ''p'' ''project-desc'' [] [TextNode ''A toy'']])"
    by (simp add: render_project_def el_def get_prop_def methods_def text_children_def)
  have t: "build_tree numeric_doc 2025 = Inl TypeError"
    by (simp add: build_tree_def el_def getPath_def get_prop_def text_children_def a c)
  have r: "render numeric_doc 2025 ?loaded
           = (Inl TypeError,
              \<lparr>doc_title = ''Capri Blue'', app_root = Some sample_mount, console = [],
               requests = [''i18n/en.json'']\<rparr>)"
    by (simp add: render_def t getPath_def get_prop_def)
  have p: "pipeline ?b sample_page
       = (Inl TypeError,
          \<lparr>doc_title = ''Capri Blue'', app_root = Some sample_mount, console = [],
           requests = [''i18n/en.json'']\<rparr>)"
    by (simp add: pipeline_def l ld v r)
  then show ?thesis
    by (simp add: bootstrap_def)
qed

end
